theory Spec2Isabelle
  imports Complex_Main "HOL-Library.Word"
begin

section \<open>JavaScript strings\<close>

text \<open>
  A JavaScript string is a sequence of UTF-16 code units; \<open>length\<close>, \<open>slice\<close>,
  \<open>includes\<close>, \<open>trim\<close> and the regular expressions of the sources all work on code
  units. A string is modelled as a list of 16-bit words, and \<open>lit\<close> turns an ASCII
  literal of the sources into that list.
\<close>

type_synonym jschar = \<open>16 word\<close>
type_synonym jsstring = \<open>jschar list\<close>

definition lit :: \<open>string \<Rightarrow> jsstring\<close> where
  \<open>lit s = map of_char s\<close>

text \<open>
  The class \<open>\s\<close> of a JavaScript regular expression, which is also what
  \<open>String.prototype.trim\<close> strips: WhiteSpace (TAB, VT, FF, SP, NBSP, ZWNBSP and the
  category Zs) and LineTerminator (LF, CR, LS, PS).
\<close>

definition isLineTerminator :: \<open>jschar \<Rightarrow> bool\<close> where
  \<open>isLineTerminator c \<longleftrightarrow> c = 0x0A \<or> c = 0x0D \<or> c = 0x2028 \<or> c = 0x2029\<close>

definition isWhiteSpace :: \<open>jschar \<Rightarrow> bool\<close> where
  \<open>isWhiteSpace c \<longleftrightarrow>
     c = 0x09 \<or> c = 0x0B \<or> c = 0x0C \<or> c = 0x20 \<or> c = 0xA0 \<or> c = 0x1680 \<or>
     (0x2000 \<le> c \<and> c \<le> 0x200A) \<or> c = 0x202F \<or> c = 0x205F \<or> c = 0x3000 \<or>
     c = 0xFEFF \<or> isLineTerminator c\<close>

text \<open>\<open>s.trim()\<close>\<close>

definition trim :: \<open>jsstring \<Rightarrow> jsstring\<close> where
  \<open>trim s = rev (dropWhile isWhiteSpace (rev (dropWhile isWhiteSpace s)))\<close>

text \<open>\<open>s.startsWith(p)\<close> and \<open>s.includes(p)\<close>\<close>

fun startsWith :: \<open>jsstring \<Rightarrow> jsstring \<Rightarrow> bool\<close> where
  \<open>startsWith s [] = True\<close>
| \<open>startsWith [] (p # ps) = False\<close>
| \<open>startsWith (c # cs) (p # ps) = (c = p \<and> startsWith cs ps)\<close>

fun includes_str :: \<open>jsstring \<Rightarrow> jsstring \<Rightarrow> bool\<close> where
  \<open>includes_str [] p = (p = [])\<close>
| \<open>includes_str (c # cs) p = (startsWith (c # cs) p \<or> includes_str cs p)\<close>

text \<open>\<open>xs.join(sep)\<close> on an array of strings\<close>

fun join :: \<open>jsstring \<Rightarrow> jsstring list \<Rightarrow> jsstring\<close> where
  \<open>join sep [] = []\<close>
| \<open>join sep [x] = x\<close>
| \<open>join sep (x # y # ys) = x @ sep @ join sep (y # ys)\<close>

text \<open>
  \<open>xs.slice(start)\<close> and \<open>xs.slice(start, end)\<close>, on arrays and on strings alike: a
  negative index counts from the end, and both indices are clamped to the length.
\<close>

definition sliceIndex :: \<open>nat \<Rightarrow> int \<Rightarrow> nat\<close> where
  \<open>sliceIndex len k = (if k < 0 then nat (max (int len + k) 0) else min (nat k) len)\<close>

definition slice_from :: \<open>int \<Rightarrow> 'a list \<Rightarrow> 'a list\<close> where
  \<open>slice_from start xs = drop (sliceIndex (length xs) start) xs\<close>

definition slice :: \<open>int \<Rightarrow> int \<Rightarrow> 'a list \<Rightarrow> 'a list\<close> where
  \<open>slice start fin xs =
     (let from = sliceIndex (length xs) start; to = sliceIndex (length xs) fin
      in take (to - from) (drop from xs))\<close>

text \<open>
  \<open>`${n}`\<close> for a non-negative integer \<open>n\<close>: its decimal digits (the numbers
  printed here are page numbers and counts, far below the \<open>1e21\<close> where JavaScript
  switches to exponent notation).
\<close>

definition digit :: \<open>nat \<Rightarrow> jschar\<close> where
  \<open>digit d = of_nat (48 + d)\<close>

function toString :: \<open>nat \<Rightarrow> jsstring\<close> where
  \<open>toString n = (if n < 10 then [digit n] else toString (n div 10) @ [digit (n mod 10)])\<close>
  by pat_completeness auto
termination
  by (relation \<open>measure id\<close>) auto

declare toString.simps [simp del]

text \<open>\<open>s.replace(/\s+/g, ' ')\<close>: every maximal run of whitespace becomes one space.\<close>

function collapseWhitespace :: \<open>jsstring \<Rightarrow> jsstring\<close> where
  \<open>collapseWhitespace [] = []\<close>
| \<open>collapseWhitespace (c # cs) =
     (if isWhiteSpace c then 0x20 # collapseWhitespace (dropWhile isWhiteSpace cs)
      else c # collapseWhitespace cs)\<close>
  by pat_completeness auto
termination
  by (relation \<open>measure length\<close>) (auto simp: length_dropWhile_le less_Suc_eq_le)

text \<open>
  \<open>s.split(/\s+/)\<close>, following the steps of \<open>RegExp.prototype[Symbol.split]\<close>: the
  scan keeps the substring since the last separator (\<open>cur\<close>); at a whitespace code
  unit the separator matches the whole run, the substring is pushed and the scan goes on
  behind the run; at the end the last substring is pushed, empty or not. On the empty
  string the separator does not match and the result is the array holding the empty
  string.
\<close>

function splitWhitespaceFrom :: \<open>jsstring \<Rightarrow> jsstring \<Rightarrow> jsstring list\<close> where
  \<open>splitWhitespaceFrom cur [] = [cur]\<close>
| \<open>splitWhitespaceFrom cur (c # cs) =
     (if isWhiteSpace c then cur # splitWhitespaceFrom [] (dropWhile isWhiteSpace cs)
      else splitWhitespaceFrom (cur @ [c]) cs)\<close>
  by pat_completeness auto
termination
  by (relation \<open>measure (\<lambda>(cur, s). length s)\<close>) (auto simp: length_dropWhile_le less_Suc_eq_le)

definition splitWhitespace :: \<open>jsstring \<Rightarrow> jsstring list\<close> where
  \<open>splitWhitespace s = splitWhitespaceFrom [] s\<close>

text \<open>\<open>s.replace(pat, rep)\<close> with a string pattern: the first occurrence only.\<close>

fun replaceFirst :: \<open>jsstring \<Rightarrow> jsstring \<Rightarrow> jsstring \<Rightarrow> jsstring\<close> where
  \<open>replaceFirst pat rep [] = (if pat = [] then rep else [])\<close>
| \<open>replaceFirst pat rep (c # cs) =
     (if startsWith (c # cs) pat then rep @ drop (length pat) (c # cs)
      else c # replaceFirst pat rep cs)\<close>

text \<open>
  A value thrown in JavaScript is any value; a handler tells an \<open>Error\<close> (with its
  message) from the rest by \<open>instanceof Error\<close>.
\<close>

datatype thrown = Error (message: jsstring) | NonError

section \<open>pdfService.ts\<close>

subsection \<open>The PDF.js collaborator and the data model\<close>

text \<open>
  What PDF.js answers for a file is not computed here: a file carries the outcome of
  \<open>file.arrayBuffer()\<close> followed by \<open>pdfjsLib.getDocument(...).promise\<close>, a document
  carries the outcome of \<open>getMetadata()\<close> and, for every page number, the outcome of
  \<open>getPage(n)\<close> followed by \<open>getTextContent()\<close>. \<open>page.cleanup()\<close> returns and
  does not throw. A text content item either has a \<open>str\<close> (a TextItem) or not (marked
  content).
\<close>

datatype js_value = JUndefined | JNull | JString jsstring | JOther

datatype text_item = TextItem (str: jsstring) | TextMarkedContent

datatype page_outcome = PageItems (items: \<open>text_item list\<close>) | PageThrows thrown

record pdf_info =
  Title :: js_value
  Author :: js_value
  Subject :: js_value
  Creator :: js_value
  Producer :: js_value
  CreationDate :: \<open>js_value option\<close>
  Keywords :: \<open>js_value option\<close>

record pdf_document =
  numPages :: nat
  getMetadata :: \<open>thrown + pdf_info option\<close>
  getPage :: \<open>nat \<Rightarrow> page_outcome\<close>

record File =
  file_name :: jsstring
  file_type :: jsstring
  file_size :: nat
  getDocument :: \<open>thrown + pdf_document\<close>

record AttachmentMetadata =
  title :: \<open>jsstring option\<close>
  author :: \<open>jsstring option\<close>
  subject :: \<open>jsstring option\<close>
  creator :: \<open>jsstring option\<close>
  producer :: \<open>jsstring option\<close>
  creationDate :: \<open>js_value option\<close>
  keywords_meta :: \<open>js_value option\<close>
  pageCount :: \<open>nat option\<close>

record PDFProcessingResult =
  result_text :: jsstring
  result_pageCount :: nat
  result_metadata :: AttachmentMetadata

record Attachment =
  attachment_id :: jsstring
  attachment_name :: jsstring
  attachment_type :: jsstring
  attachment_size :: nat
  url :: jsstring
  extractedText :: \<open>jsstring option\<close>
  metadata :: \<open>AttachmentMetadata option\<close>

subsection \<open>validatePDFFile\<close>

text \<open>
  \<open>formatFileSize\<close> prints through \<open>Math.log\<close> and \<open>toFixed\<close>; its output only
  appears inside the message of an oversized file, so the function is a parameter.
\<close>

record validation =
  valid :: bool
  validation_error :: \<open>jsstring option\<close>

definition maxSize :: nat where
  \<open>maxSize = 15 * 1024 * 1024\<close>

definition validatePDFFile :: \<open>(nat \<Rightarrow> jsstring) \<Rightarrow> File \<Rightarrow> validation\<close> where
  \<open>validatePDFFile formatFileSize file =
     (if file_type file \<noteq> lit ''application/pdf''
      then \<lparr>valid = False, validation_error = Some (lit ''Please select a PDF file'')\<rparr>
      else if file_size file > maxSize
      then \<lparr>valid = False,
            validation_error = Some (lit ''File size ('' @ formatFileSize (file_size file) @
              lit '') exceeds the maximum limit of '' @ formatFileSize maxSize)\<rparr>
      else \<lparr>valid = True, validation_error = None\<rparr>)\<close>

subsection \<open>extractTextFromPDF\<close>

text \<open>
  The metadata block: a failure of \<open>getMetadata()\<close> is logged and leaves the metadata
  the empty object; a success builds the seven fields, and never a \<open>pageCount\<close>.
\<close>

definition stringOr :: \<open>js_value \<Rightarrow> jsstring \<Rightarrow> jsstring\<close> where
  \<open>stringOr v d = (case v of JString s \<Rightarrow> s | _ \<Rightarrow> d)\<close>

definition emptyMetadata :: AttachmentMetadata where
  \<open>emptyMetadata =
     \<lparr>title = None, author = None, subject = None, creator = None, producer = None,
      creationDate = None, keywords_meta = None, pageCount = None\<rparr>\<close>

definition readMetadata :: \<open>File \<Rightarrow> pdf_document \<Rightarrow> AttachmentMetadata\<close> where
  \<open>readMetadata file pdf =
     (case getMetadata pdf of
        Inl metaError \<Rightarrow> emptyMetadata
      | Inr info \<Rightarrow>
          \<lparr>title = Some (case info of
               Some i \<Rightarrow> stringOr (Title i) (replaceFirst (lit ''.pdf'') [] (file_name file))
             | None \<Rightarrow> replaceFirst (lit ''.pdf'') [] (file_name file)),
           author = Some (case info of
               Some i \<Rightarrow> stringOr (Author i) (lit ''Unknown'') | None \<Rightarrow> lit ''Unknown''),
           subject = Some (case info of
               Some i \<Rightarrow> stringOr (Subject i) (lit ''Document Analysis'')
             | None \<Rightarrow> lit ''Document Analysis''),
           creator = Some (case info of
               Some i \<Rightarrow> stringOr (Creator i) (lit ''PDF Creator'') | None \<Rightarrow> lit ''PDF Creator''),
           producer = Some (case info of
               Some i \<Rightarrow> stringOr (Producer i) (lit ''Unknown'') | None \<Rightarrow> lit ''Unknown''),
           creationDate = Some (case info of
               Some i \<Rightarrow> (case CreationDate i of Some v \<Rightarrow> v | None \<Rightarrow> JNull)
             | None \<Rightarrow> JNull),
           keywords_meta = Some (case info of
               Some i \<Rightarrow> (case Keywords i of Some v \<Rightarrow> v | None \<Rightarrow> JString [])
             | None \<Rightarrow> JString []),
           pageCount = None\<rparr>)\<close>

text \<open>
  The text of one page: the \<open>str\<close> of every item (the empty string for an item
  without one), joined with single spaces, whitespace runs collapsed, trimmed.
\<close>

definition itemText :: \<open>text_item \<Rightarrow> jsstring\<close> where
  \<open>itemText item = (case item of TextItem s \<Rightarrow> s | TextMarkedContent \<Rightarrow> [])\<close>

definition pageText :: \<open>text_item list \<Rightarrow> jsstring\<close> where
  \<open>pageText its = trim (collapseWhitespace (join (lit '' '') (map itemText its)))\<close>

definition pageMarker :: \<open>nat \<Rightarrow> jsstring\<close> where
  \<open>pageMarker pageNum = lit ''--- Page '' @ toString pageNum @ lit '' ---''\<close>

text \<open>
  The body of the page loop: a page with text pushes its block, a page whose text is
  empty pushes nothing, a page whose extraction throws pushes the placeholder block.
\<close>

definition processPage :: \<open>pdf_document \<Rightarrow> nat \<Rightarrow> jsstring list \<Rightarrow> jsstring list\<close> where
  \<open>processPage pdf pageNum textPages =
     (case getPage pdf pageNum of
        PageItems its \<Rightarrow>
          (let t = pageText its
           in if t \<noteq> [] then textPages @ [pageMarker pageNum @ lit ''\<newline>'' @ t @ lit ''\<newline>'']
              else textPages)
      | PageThrows pageError \<Rightarrow>
          textPages @
            [pageMarker pageNum @ lit ''\<newline>[Error extracting text from this page]\<newline>''])\<close>

function extractPages :: \<open>pdf_document \<Rightarrow> nat \<Rightarrow> jsstring list \<Rightarrow> jsstring list\<close> where
  \<open>extractPages pdf pageNum textPages =
     (if pageNum \<le> numPages pdf
      then extractPages pdf (pageNum + 1) (processPage pdf pageNum textPages)
      else textPages)\<close>
  by pat_completeness auto
termination
  by (relation \<open>measure (\<lambda>(pdf, pageNum, textPages). numPages pdf + 1 - pageNum)\<close>) auto

declare extractPages.simps [simp del]

definition fullText :: \<open>pdf_document \<Rightarrow> jsstring\<close> where
  \<open>fullText pdf = trim (join (lit ''\<newline>'') (extractPages pdf 1 []))\<close>

text \<open>The \<open>try\<close> block, and the \<open>catch\<close> block that rewrites what it threw.\<close>

definition extractionAttempt :: \<open>File \<Rightarrow> thrown + PDFProcessingResult\<close> where
  \<open>extractionAttempt file =
     (case getDocument file of
        Inl e \<Rightarrow> Inl e
      | Inr pdf \<Rightarrow>
          if fullText pdf = [] \<or> length (fullText pdf) < 10
          then Inl (Error (lit
            ''PDF appears to be empty or contains only images/scanned content. Text extraction failed.''))
          else Inr \<lparr>result_text = fullText pdf, result_pageCount = numPages pdf,
                    result_metadata = readMetadata file pdf\<rparr>)\<close>

definition invalidDocumentMessage :: jsstring where
  \<open>invalidDocumentMessage =
     lit ''The uploaded file appears to be corrupted or is not a valid PDF document.''\<close>

definition passwordProtectedMessage :: jsstring where
  \<open>passwordProtectedMessage =
     lit ''This PDF is password-protected. Please upload an unprotected PDF file.''\<close>

definition emptyOrImageOnlyMessage :: jsstring where
  \<open>emptyOrImageOnlyMessage =
     lit ''This PDF appears to contain only images or scanned content. Please try a PDF with selectable text.''\<close>

definition classifyExtractionError :: \<open>thrown \<Rightarrow> thrown\<close> where
  \<open>classifyExtractionError e =
     (case e of
        Error m \<Rightarrow>
          if includes_str m (lit ''Invalid PDF'') then Error invalidDocumentMessage
          else if includes_str m (lit ''password'') then Error passwordProtectedMessage
          else if includes_str m (lit ''empty'') then Error emptyOrImageOnlyMessage
          else Error (lit ''Failed to extract text from PDF: '' @ m)
      | NonError \<Rightarrow>
          Error (lit ''An unexpected error occurred while processing the PDF. Please try again.''))\<close>

definition extractTextFromPDF :: \<open>File \<Rightarrow> thrown + PDFProcessingResult\<close> where
  \<open>extractTextFromPDF file =
     (case extractionAttempt file of
        Inr r \<Rightarrow> Inr r
      | Inl e \<Rightarrow> Inl (classifyExtractionError e))\<close>

subsection \<open>processPDFFile, cleanupPDFResources, getPDFStats\<close>

text \<open>
  What the browser contributes to an upload: the printing of sizes and counts, the ids
  that \<open>generateId\<close> draws from the clock and \<open>Math.random\<close>, the blob URL (or the
  exception) of \<open>URL.createObjectURL\<close>, and the clock. \<open>extractKeyInfo\<close> is four
  regular-expression searches whose results only fill optional lines of the analysis
  message; it is carried here as a function of the text.
\<close>

record KeyInfo =
  emails :: \<open>jsstring list\<close>
  phones :: \<open>jsstring list\<close>
  urls :: \<open>jsstring list\<close>
  dates :: \<open>jsstring list\<close>

record environment =
  formatFileSize :: \<open>nat \<Rightarrow> jsstring\<close>
  attachmentId :: jsstring
  createObjectURL :: \<open>thrown + jsstring\<close>
  messageId :: jsstring
  now :: nat
  toLocaleString :: \<open>nat \<Rightarrow> jsstring\<close>
  extractKeyInfo :: \<open>jsstring \<Rightarrow> KeyInfo\<close>

definition processPDFFile :: \<open>environment \<Rightarrow> File \<Rightarrow> thrown + Attachment\<close> where
  \<open>processPDFFile env file =
     (let validation = validatePDFFile (formatFileSize env) file
      in if \<not> valid validation
         then Inl (Error (case validation_error validation of Some m \<Rightarrow> m | None \<Rightarrow> []))
         else case extractTextFromPDF file of
                Inl e \<Rightarrow> Inl e
              | Inr extractionResult \<Rightarrow>
                  (case createObjectURL env of
                     Inl e \<Rightarrow> Inl e
                   | Inr blobUrl \<Rightarrow>
                       Inr \<lparr>attachment_id = attachmentId env,
                            attachment_name = file_name file,
                            attachment_type = lit ''pdf'',
                            attachment_size = file_size file,
                            url = blobUrl,
                            extractedText = Some (result_text extractionResult),
                            metadata = Some (result_metadata extractionResult)\<rparr>))\<close>

text \<open>
  \<open>cleanupPDFResources\<close> revokes a blob URL; the URLs revoked so far are the state it
  changes.
\<close>

definition cleanupPDFResources :: \<open>Attachment \<Rightarrow> jsstring list \<Rightarrow> jsstring list\<close> where
  \<open>cleanupPDFResources attachment revoked =
     (if startsWith (url attachment) (lit ''blob:'') then revoked @ [url attachment]
      else revoked)\<close>

text \<open>
  \<open>Math.ceil(words.length / 200)\<close> divides in floating point; the quotient of a
  count below \<open>2^53\<close> by 200 is off by far less than \<open>1/200\<close>, so the ceiling is
  the exact one, taken here over the rationals.
\<close>

record PDFStats =
  wordCount :: nat
  characterCount :: nat
  readingTime :: nat
  pages :: nat

definition getPDFStats :: \<open>Attachment \<Rightarrow> PDFStats\<close> where
  \<open>getPDFStats attachment =
     (let text = (case extractedText attachment of Some t \<Rightarrow> t | None \<Rightarrow> []);
          words = filter (\<lambda>word. length word > 0) (splitWhitespace text);
          characters = length text;
          readingTime = nat \<lceil>(of_nat (length words) :: rat) / 200\<rceil>
      in \<lparr>wordCount = length words,
          characterCount = characters,
          readingTime = readingTime,
          pages = (case metadata attachment of
                     None \<Rightarrow> 0
                   | Some m \<Rightarrow> (case pageCount m of None \<Rightarrow> 0 | Some n \<Rightarrow> n))\<rparr>)\<close>

section \<open>groqService.ts\<close>

datatype role = System | User | Assistant

record GroqMessage =
  role :: role
  content :: jsstring

definition aiPrompt :: jsstring where
  \<open>aiPrompt = concat [
      lit ''You are an elite AI assistant specializing in document analysis and intelligent conversation. You excel at understanding PDF documents, extracting insights, and providing clear, professional responses with a vintage scholarly approach.\<newline>'',
      lit ''\<newline>'',
      lit ''Core Capabilities:\<newline>'',
      lit ''- Comprehensive document analysis and understanding with scholarly precision\<newline>'',
      lit ''- Intelligent information extraction and detailed summarization\<newline>'',
      lit ''- Context-aware responses that demonstrate deep comprehension\<newline>'',
      lit ''- Clear explanations of complex concepts with academic rigor\<newline>'',
      lit ''- Professional, articulate communication with vintage sophistication\<newline>'',
      lit ''\<newline>'',
      lit ''Response Excellence:\<newline>'',
      lit ''1. Provide precise, well-structured answers that directly address the inquiry\<newline>'',
      lit ''2. Use clear, eloquent language while maintaining technical accuracy\<newline>'',
      lit ''3. Structure responses with proper formatting and logical progression\<newline>'',
      lit ''4. Include specific examples or references when relevant\<newline>'',
      lit ''5. Offer actionable insights and scholarly recommendations\<newline>'',
      lit ''\<newline>'',
      lit ''Response Structure:\<newline>'',
      lit ''- Begin with a direct, authoritative answer to the core question\<newline>'',
      lit ''- Follow with supporting analysis and contextual information\<newline>'',
      lit ''- Use proper formatting (bold, italics, lists) for maximum clarity\<newline>'',
      lit ''- Conclude with practical insights or next steps when appropriate\<newline>'',
      lit ''- Maintain a professional yet approachable scholarly tone\<newline>'',
      lit ''\<newline>'',
      lit ''Document Analysis Approach:\<newline>'',
      lit ''- Thoroughly examine content structure, key themes, and relationships\<newline>'',
      lit ''- Extract relevant information with precision and context\<newline>'',
      lit ''- Identify important patterns, conclusions, and implications\<newline>'',
      lit ''- Provide comprehensive summaries that capture essential elements\<newline>'',
      lit ''- Offer intelligent insights that go beyond surface-level content\<newline>'',
      lit ''\<newline>'',
      lit ''Your mission is to provide intelligent, accurate, and insightful analysis that transforms complex documents into accessible, actionable knowledge with the refinement of classic scholarship.'']\<close>

definition DEFAULT_MODEL :: jsstring where
  \<open>DEFAULT_MODEL = lit ''meta-llama/llama-4-scout-17b-16e-instruct''\<close>

definition FALLBACK_MODEL :: jsstring where
  \<open>FALLBACK_MODEL = lit ''llama3-8b-8192''\<close>

text \<open>
  The request of \<open>groq.chat.completions.create\<close>: the model, the messages and the
  generation parameters (decimal literals, kept as rationals). The collaborator answers
  a request with a completion or throws; a completion has a list of choices, and a
  choice may lack its message or the message its content.
\<close>

record request =
  req_model :: jsstring
  req_messages :: \<open>GroqMessage list\<close>
  temperature :: rat
  max_tokens :: nat
  top_p :: rat
  frequency_penalty :: \<open>rat option\<close>
  presence_penalty :: \<open>rat option\<close>

datatype completion_message = CompletionMessage (message_content: \<open>jsstring option\<close>)

datatype choice = Choice (choice_message: \<open>completion_message option\<close>)

record completion =
  choices :: \<open>choice list\<close>

text \<open>\<open>completion.choices[0]?.message?.content\<close>\<close>

definition responseContent :: \<open>completion \<Rightarrow> jsstring option\<close> where
  \<open>responseContent c =
     (case choices c of
        [] \<Rightarrow> None
      | ch # _ \<Rightarrow> (case choice_message ch of None \<Rightarrow> None | Some m \<Rightarrow> message_content m))\<close>

text \<open>The request of the primary attempt (the \<open>try\<close> block).\<close>

definition primaryRequest :: \<open>jsstring \<Rightarrow> GroqMessage list \<Rightarrow> jsstring option \<Rightarrow> request\<close> where
  \<open>primaryRequest userMessage conversationHistory documentContext =
     (let messages = [\<lparr>role = System, content = aiPrompt\<rparr>];
          messages = (if length conversationHistory > 0
                      then messages @ slice_from (- 10) conversationHistory
                      else messages);
          userContent = (case documentContext of
                           None \<Rightarrow> userMessage
                         | Some d \<Rightarrow>
                             if d \<noteq> []
                             then lit ''Document Context:\<newline>'' @ slice 0 8000 d @
                                  lit ''\<newline>\<newline>User Question: '' @ userMessage
                             else userMessage);
          messages = messages @ [\<lparr>role = User, content = userContent\<rparr>]
      in \<lparr>req_model = DEFAULT_MODEL, req_messages = messages,
          temperature = 7 / 10, max_tokens = 2000, top_p = 95 / 100,
          frequency_penalty = Some (1 / 10), presence_penalty = Some (5 / 100)\<rparr>)\<close>

text \<open>The request of the fallback attempt (inside the \<open>catch\<close> block).\<close>

definition fallbackRequest :: \<open>jsstring \<Rightarrow> GroqMessage list \<Rightarrow> jsstring option \<Rightarrow> request\<close> where
  \<open>fallbackRequest userMessage conversationHistory documentContext =
     \<lparr>req_model = FALLBACK_MODEL,
      req_messages =
        [\<lparr>role = System, content = aiPrompt\<rparr>] @
        slice_from (- 8) conversationHistory @
        [\<lparr>role = User,
          content = (case documentContext of
                       None \<Rightarrow> userMessage
                     | Some d \<Rightarrow>
                         if d \<noteq> []
                         then lit ''Document Context:\<newline>'' @ slice 0 6000 d @
                              lit ''\<newline>\<newline>User Question: '' @ userMessage
                         else userMessage)\<rparr>],
      temperature = 6 / 10, max_tokens = 1500, top_p = 9 / 10,
      frequency_penalty = None, presence_penalty = None\<rparr>\<close>

text \<open>
  One attempt: the call, then \<open>if (!response) throw new Error(noResponse)\<close>, then
  \<open>return response.trim()\<close>. \<open>!response\<close> holds for a missing content and for the
  empty string.
\<close>

definition attempt ::
  \<open>(request \<Rightarrow> thrown + completion) \<Rightarrow> request \<Rightarrow> jsstring \<Rightarrow> thrown + jsstring\<close> where
  \<open>attempt create req noResponse =
     (case create req of
        Inl e \<Rightarrow> Inl e
      | Inr c \<Rightarrow>
          (case responseContent c of
             None \<Rightarrow> Inl (Error noResponse)
           | Some response \<Rightarrow>
               if response = [] then Inl (Error noResponse) else Inr (trim response)))\<close>

definition serviceUnavailableMessage :: jsstring where
  \<open>serviceUnavailableMessage =
     lit ''AI service is currently unavailable. Please try again in a moment.''\<close>

text \<open>
  \<open>chatWithContext\<close> returns what the caller gets (the answer, or the value thrown)
  together with the requests it sent to the collaborator, in order.
\<close>

definition chatWithContext ::
  \<open>(request \<Rightarrow> thrown + completion) \<Rightarrow> jsstring \<Rightarrow> GroqMessage list \<Rightarrow> jsstring option
     \<Rightarrow> (thrown + jsstring) \<times> request list\<close> where
  \<open>chatWithContext create userMessage conversationHistory documentContext =
     (let primary = primaryRequest userMessage conversationHistory documentContext
      in case attempt create primary (lit ''No response received from AI service'') of
           Inr response \<Rightarrow> (Inr response, [primary])
         | Inl error \<Rightarrow>
             (let fallback = fallbackRequest userMessage conversationHistory documentContext
              in case attempt create fallback
                        (lit ''No response received from fallback AI service'') of
                   Inr response \<Rightarrow> (Inr response, [primary, fallback])
                 | Inl fallbackError \<Rightarrow>
                     (Inl (Error serviceUnavailableMessage), [primary, fallback])))\<close>

section \<open>utils: parseMarkdown\<close>

subsection \<open>Regular expressions with backtracking\<close>

text \<open>
  The patterns of \<open>parseMarkdown\<close> are built from literals, character classes,
  sequence, greedy and lazy repetition, one capturing group and the assertions \<open>^\<close>
  and \<open>$\<close> under the \<open>m\<close> flag. The flag \<open>i\<close> changes nothing for them: their
  literals are \<open>#\<close>, \<open>-\<close>, \<open>>\<close>, \<open>.\<close> and the space, which have no other case.

  A matcher state is the code unit before the position (none at the start), the rest of
  the input, and the text of the capturing group. \<open>rmatch r st\<close> lists the states in
  which a match of \<open>r\<close> from \<open>st\<close> can end, in the order in which backtracking
  tries them; the match JavaScript reports is the first of the list. A repetition drops
  an iteration that consumed nothing, as the RepeatMatcher of ECMAScript does.
\<close>

datatype regex =
    Lit jsstring
  | Cls \<open>jschar \<Rightarrow> bool\<close>
  | Seq regex regex
  | Star bool regex
  | Grp regex
  | Bol
  | Eol

record mstate =
  prev :: \<open>jschar option\<close>
  rest :: jsstring
  cap :: \<open>jsstring option\<close>

function rmatch :: \<open>regex \<Rightarrow> mstate \<Rightarrow> mstate list\<close> where
  \<open>rmatch (Lit l) st =
     (if l \<noteq> [] \<and> startsWith (rest st) l
      then [st\<lparr>prev := Some (last l), rest := drop (length l) (rest st)\<rparr>]
      else if l = [] then [st] else [])\<close>
| \<open>rmatch (Cls P) st =
     (case rest st of
        [] \<Rightarrow> []
      | c # cs \<Rightarrow> if P c then [st\<lparr>prev := Some c, rest := cs\<rparr>] else [])\<close>
| \<open>rmatch (Seq r1 r2) st = concat (map (rmatch r2) (rmatch r1 st))\<close>
| \<open>rmatch (Star greedy r) st =
     (let more = concat (map (rmatch (Star greedy r))
                   (filter (\<lambda>st'. length (rest st') < length (rest st)) (rmatch r st)))
      in if greedy then more @ [st] else st # more)\<close>
| \<open>rmatch (Grp r) st =
     map (\<lambda>st'. st'\<lparr>cap := Some (take (length (rest st) - length (rest st')) (rest st))\<rparr>)
       (rmatch r st)\<close>
| \<open>rmatch Bol st =
     (case prev st of
        None \<Rightarrow> [st]
      | Some c \<Rightarrow> if isLineTerminator c then [st] else [])\<close>
| \<open>rmatch Eol st =
     (case rest st of
        [] \<Rightarrow> [st]
      | c # cs \<Rightarrow> if isLineTerminator c then [st] else [])\<close>
  by pat_completeness auto
termination
  by (relation \<open>measures [\<lambda>(r, st). size r, \<lambda>(r, st). length (rest st)]\<close>) auto

definition Plus :: \<open>regex \<Rightarrow> regex\<close> where
  \<open>Plus r = Seq r (Star True r)\<close>

definition dot :: regex where
  \<open>dot = Cls (\<lambda>c. \<not> isLineTerminator c)\<close>

definition isDigit :: \<open>jschar \<Rightarrow> bool\<close> where
  \<open>isDigit c \<longleftrightarrow> 0x30 \<le> c \<and> c \<le> 0x39\<close>

text \<open>
  A replacement string is a list of parts: literal text, \<open>$1\<close> (the group, the empty
  string when it did not take part) and \<open>$&\<close> (the whole match).
\<close>

datatype replacement_part = RLit jsstring | RGroup | RMatch

fun expand :: \<open>replacement_part list \<Rightarrow> jsstring \<Rightarrow> jsstring option \<Rightarrow> jsstring\<close> where
  \<open>expand [] matched captured = []\<close>
| \<open>expand (RLit l # ps) matched captured = l @ expand ps matched captured\<close>
| \<open>expand (RGroup # ps) matched captured =
     (case captured of Some g \<Rightarrow> g | None \<Rightarrow> []) @ expand ps matched captured\<close>
| \<open>expand (RMatch # ps) matched captured = matched @ expand ps matched captured\<close>

text \<open>
  \<open>s.replace(r, replacement)\<close> with the flag \<open>g\<close>: the search for the next match
  starts where the last one ended (one code unit further after an empty match); the
  text between matches is copied.
\<close>

function replaceFrom ::
  \<open>regex \<Rightarrow> replacement_part list \<Rightarrow> jschar option \<Rightarrow> jsstring \<Rightarrow> jsstring\<close> where
  \<open>replaceFrom r rep preceding s =
     (case rmatch r \<lparr>prev = preceding, rest = s, cap = None\<rparr> of
        m # _ \<Rightarrow>
          expand rep (take (length s - length (rest m)) s) (cap m) @
          (if length (rest m) < length s then replaceFrom r rep (prev m) (rest m)
           else (case s of [] \<Rightarrow> [] | c # cs \<Rightarrow> c # replaceFrom r rep (Some c) cs))
      | [] \<Rightarrow> (case s of [] \<Rightarrow> [] | c # cs \<Rightarrow> c # replaceFrom r rep (Some c) cs))\<close>
  by pat_completeness auto
termination
  by (relation \<open>measure (\<lambda>(r, rep, preceding, s). length s)\<close>) auto

declare replaceFrom.simps [simp del]

definition replaceAll :: \<open>regex \<Rightarrow> replacement_part list \<Rightarrow> jsstring \<Rightarrow> jsstring\<close> where
  \<open>replaceAll r rep s = replaceFrom r rep None s\<close>

subsection \<open>parseMarkdown\<close>

text \<open>\<open>/^PREFIX(.*$)/gim\<close> for a pattern \<open>PREFIX\<close>\<close>

definition lineRule :: \<open>regex \<Rightarrow> regex\<close> where
  \<open>lineRule pre = Seq Bol (Seq pre (Grp (Seq (Star True dot) Eol)))\<close>

text \<open>\<open>/DELIM(BODY*?)DELIM/g\<close>\<close>

definition spanRule :: \<open>jsstring \<Rightarrow> regex \<Rightarrow> regex\<close> where
  \<open>spanRule delim body = Seq (Lit delim) (Seq (Grp (Star False body)) (Lit delim))\<close>

text \<open>\<open>/(<li.*?>.*?<\/li>\s*)+/g\<close>\<close>

definition listItems :: regex where
  \<open>listItems =
     Plus (Grp (Seq (Lit (lit ''<li'')) (Seq (Star False dot) (Seq (Lit (lit ''>''))
       (Seq (Star False dot) (Seq (Lit (lit ''</li>'')) (Star True (Cls isWhiteSpace))))))))\<close>

text \<open>
  The bullet of an unordered item is written in the source as the three code points
  U+00E2, U+20AC, U+00A2.
\<close>

definition parseMarkdown :: \<open>jsstring \<Rightarrow> jsstring\<close> where
  \<open>parseMarkdown text0 =
     (let html = text0;
          html = replaceAll (lineRule (Lit (lit ''### '')))
            [RLit (lit ''<h3 class="text-lg font-serif font-bold mt-6 mb-3 text-vintage-title">''),
             RGroup, RLit (lit ''</h3>'')] html;
          html = replaceAll (lineRule (Lit (lit ''## '')))
            [RLit (lit ''<h2 class="text-xl font-serif font-bold mt-8 mb-4 text-vintage-title">''),
             RGroup, RLit (lit ''</h2>'')] html;
          html = replaceAll (lineRule (Lit (lit ''# '')))
            [RLit (lit ''<h1 class="text-2xl font-serif font-bold mt-8 mb-4 text-vintage-title">''),
             RGroup, RLit (lit ''</h1>'')] html;
          html = replaceAll (spanRule (lit ''**'') dot)
            [RLit (lit ''<strong class="font-semibold text-vintage-black">''),
             RGroup, RLit (lit ''</strong>'')] html;
          html = replaceAll (spanRule (lit ''*'') dot)
            [RLit (lit ''<em class="italic">''), RGroup, RLit (lit ''</em>'')] html;
          html = replaceAll (spanRule (lit ''```'') (Cls (\<lambda>c. True)))
            [RLit (lit ''<pre class="bg-vintage-gray-100 border border-vintage-gray-300 p-4 my-4 font-mono text-sm overflow-x-auto"><code>''),
             RGroup, RLit (lit ''</code></pre>'')] html;
          html = replaceAll (spanRule (lit ''`'') dot)
            [RLit (lit ''<code class="bg-vintage-gray-100 px-2 py-1 font-mono text-sm border border-vintage-gray-300">''),
             RGroup, RLit (lit ''</code>'')] html;
          html = replaceAll (lineRule (Lit (lit ''- '')))
            [RLit (lit ''<li class="ml-4 mb-2">'' @ [0xE2, 0x20AC, 0xA2] @ lit '' ''),
             RGroup, RLit (lit ''</li>'')] html;
          html = replaceAll (lineRule (Seq (Plus (Cls isDigit)) (Lit (lit ''. ''))))
            [RLit (lit ''<li class="ml-4 mb-2 list-decimal">''), RGroup, RLit (lit ''</li>'')] html;
          html = replaceAll listItems
            [RLit (lit ''<ul class="my-4 space-y-1">''), RMatch, RLit (lit ''</ul>'')] html;
          html = replaceAll (lineRule (Lit (lit ''> '')))
            [RLit (lit ''<blockquote class="border-l-4 border-vintage-black pl-4 my-4 italic text-vintage-gray-700">''),
             RGroup, RLit (lit ''</blockquote>'')] html;
          html = replaceAll (Lit (lit ''\<newline>\<newline>'')) [RLit (lit ''</p><p class="mb-4">'')] html;
          html = replaceAll (Lit (lit ''\<newline>'')) [RLit (lit ''<br>'')] html
      in if \<not> includes_str html (lit ''<p>'') \<and> \<not> includes_str html (lit ''<h1>'') \<and>
            \<not> includes_str html (lit ''<h2>'') \<and> \<not> includes_str html (lit ''<h3>'')
         then lit ''<p class="mb-4">'' @ html @ lit ''</p>''
         else html)\<close>

section \<open>Chat.tsx: handleFileUpload\<close>

datatype message_role = UserMessage | AssistantMessage

record Message =
  message_id :: jsstring
  message_text :: jsstring
  message_role :: message_role
  timestamp :: nat
  attachments :: \<open>Attachment list option\<close>

text \<open>
  The state of the component, and the blob URLs revoked so far. The ticks of the
  progress timer are not followed: \<open>uploadProgress\<close> is the value the handler itself
  sets.
\<close>

record ChatState =
  messages :: \<open>Message list\<close>
  input :: jsstring
  isLoading :: bool
  attachment :: \<open>Attachment option\<close>
  uploadProgress :: nat
  processingStatus :: jsstring
  error :: \<open>jsstring option\<close>
  revoked :: \<open>jsstring list\<close>

text \<open>
  One optional line of the analysis message: the first three matches, \<open>...\<close> when
  there are more, and a line break; nothing when there is no match.
\<close>

definition foundLine :: \<open>jsstring \<Rightarrow> jsstring list \<Rightarrow> jsstring\<close> where
  \<open>foundLine label found =
     (if length found > 0
      then label @ join (lit '', '') (slice 0 3 found) @
           (if length found > 3 then lit ''...'' else []) @ lit ''\<newline>''
      else [])\<close>

definition analysisContent :: \<open>environment \<Rightarrow> Attachment \<Rightarrow> jsstring\<close> where
  \<open>analysisContent env newAttachment =
     (let stats = getPDFStats newAttachment;
          keyInfo = extractKeyInfo env
            (case extractedText newAttachment of Some t \<Rightarrow> t | None \<Rightarrow> [])
      in lit ''# PDF Analysis Complete\<newline>\<newline>**Document**: '' @ attachment_name newAttachment @
         lit ''\<newline>**Pages**: '' @ toString (pages stats) @
         lit ''\<newline>**Word Count**: '' @ toLocaleString env (wordCount stats) @
         lit ''\<newline>**Character Count**: '' @ toLocaleString env (characterCount stats) @
         lit ''\<newline>**Estimated Reading Time**: '' @ toString (readingTime stats) @
         lit '' minutes\<newline>\<newline>'' @
         foundLine (lit ''**Email Addresses Found**: '') (emails keyInfo) @
         foundLine (lit ''**Phone Numbers Found**: '') (phones keyInfo) @
         foundLine (lit ''**Dates Found**: '') (dates keyInfo) @
         lit ''\<newline>I have successfully extracted and analyzed the content from your PDF document. The text has been processed and I am now ready to answer questions, provide summaries, or discuss any specific aspects of the document.\<newline>\<newline>## What would you like to know about this document?\<newline>\<newline>Some suggestions:\<newline>- "Summarize the main points"\<newline>- "What are the key topics covered?"\<newline>- "Extract important dates or numbers"\<newline>- "What conclusions does the document reach?"'')\<close>

definition errorMessage :: \<open>thrown \<Rightarrow> jsstring\<close> where
  \<open>errorMessage e =
     (case e of Error m \<Rightarrow> m | NonError \<Rightarrow> lit ''Failed to process PDF document'')\<close>

definition handleFileUpload :: \<open>environment \<Rightarrow> File \<Rightarrow> ChatState \<Rightarrow> ChatState\<close> where
  \<open>handleFileUpload env file st =
     (let st1 = st\<lparr>isLoading := True, uploadProgress := 0, error := None,
                   processingStatus := lit ''Extracting text from PDF...''\<rparr>;
          st2 = (case processPDFFile env file of
                   Inr newAttachment \<Rightarrow>
                     st1\<lparr>uploadProgress := 100,
                         processingStatus := lit ''PDF processed successfully!'',
                         revoked := (case attachment st of
                                       Some old \<Rightarrow> cleanupPDFResources old (revoked st)
                                     | None \<Rightarrow> revoked st),
                         attachment := Some newAttachment,
                         messages := messages st @
                           [\<lparr>message_id = messageId env,
                             message_text = analysisContent env newAttachment,
                             message_role = AssistantMessage,
                             timestamp = now env,
                             attachments = None\<rparr>]\<rparr>
                 | Inl e \<Rightarrow> st1\<lparr>error := Some (errorMessage e)\<rparr>)
      in st2\<lparr>isLoading := False, uploadProgress := 0, processingStatus := []\<rparr>)\<close>

section \<open>Notions used to state the properties\<close>

text \<open>
  The body of the block of page \<open>n\<close>: the text of the page, or the placeholder when
  its extraction threw. A page gets a block exactly when this body is not empty.
\<close>

definition pageBody :: \<open>pdf_document \<Rightarrow> nat \<Rightarrow> jsstring\<close> where
  \<open>pageBody pdf n =
     (case getPage pdf n of
        PageItems its \<Rightarrow> pageText its
      | PageThrows e \<Rightarrow> lit ''[Error extracting text from this page]'')\<close>

definition pageBlock :: \<open>pdf_document \<Rightarrow> nat \<Rightarrow> jsstring\<close> where
  \<open>pageBlock pdf n = pageMarker n @ lit ''\<newline>'' @ pageBody pdf n\<close>

definition pagesWithBlock :: \<open>pdf_document \<Rightarrow> nat list\<close> where
  \<open>pagesWithBlock pdf = filter (\<lambda>n. pageBody pdf n \<noteq> []) [1..<Suc (numPages pdf)]\<close>

text \<open>
  The number of positions of a string where a token starts: a code unit that is not
  whitespace and follows whitespace (or, for the first code unit, \<open>b\<close>).
\<close>

fun tokenStarts :: \<open>bool \<Rightarrow> jsstring \<Rightarrow> nat\<close> where
  \<open>tokenStarts b [] = 0\<close>
| \<open>tokenStarts b (c # cs) =
     (if \<not> isWhiteSpace c \<and> b then 1 else 0) + tokenStarts (isWhiteSpace c) cs\<close>

text \<open>
  What an attempt of \<open>chatWithContext\<close> takes for the reply of the collaborator: the
  content of the first choice when it is there and is not the empty string.
\<close>

definition reply :: \<open>thrown + completion \<Rightarrow> jsstring option\<close> where
  \<open>reply outcome =
     (case outcome of
        Inl e \<Rightarrow> None
      | Inr c \<Rightarrow>
          (case responseContent c of
             None \<Rightarrow> None
           | Some r \<Rightarrow> if r = [] then None else Some r))\<close>

text \<open>The content of the user turn, with at most \<open>limit\<close> code units of the document.\<close>

definition userTurn :: \<open>nat \<Rightarrow> jsstring \<Rightarrow> jsstring option \<Rightarrow> jsstring\<close> where
  \<open>userTurn limit question document =
     (case document of
        None \<Rightarrow> question
      | Some d \<Rightarrow>
          if d = [] then question
          else lit ''Document Context:\<newline>'' @ take limit d @
               lit ''\<newline>\<newline>User Question: '' @ question)\<close>

text \<open>Example inputs.\<close>

definition helloPage :: page_outcome where
  \<open>helloPage = PageItems [TextItem (lit ''Hello world'')]\<close>

definition helloDocument :: pdf_document where
  \<open>helloDocument = \<lparr>numPages = 3, getMetadata = Inr None, getPage = (\<lambda>n. helloPage)\<rparr>\<close>

definition helloFile :: File where
  \<open>helloFile =
     \<lparr>file_name = lit ''hello.pdf'', file_type = lit ''application/pdf'', file_size = 2048,
      getDocument = Inr helloDocument\<rparr>\<close>

definition sparseDocument :: pdf_document where
  \<open>sparseDocument =
     \<lparr>numPages = 2, getMetadata = Inl NonError,
      getPage = (\<lambda>n. if n = 1 then PageItems [TextItem (lit ''Hello world!'')]
                     else PageItems [])\<rparr>\<close>

definition sparseFile :: File where
  \<open>sparseFile =
     \<lparr>file_name = lit ''sparse.pdf'', file_type = lit ''application/pdf'', file_size = 2048,
      getDocument = Inr sparseDocument\<rparr>\<close>

definition scannedDocument :: pdf_document where
  \<open>scannedDocument =
     \<lparr>numPages = 1, getMetadata = Inl NonError, getPage = (\<lambda>n. PageItems [])\<rparr>\<close>

definition scannedFile :: File where
  \<open>scannedFile =
     \<lparr>file_name = lit ''scan.pdf'', file_type = lit ''application/pdf'', file_size = 2048,
      getDocument = Inr scannedDocument\<rparr>\<close>

definition exampleEnvironment :: environment where
  \<open>exampleEnvironment =
     \<lparr>formatFileSize = toString,
      attachmentId = lit ''1-a'',
      createObjectURL = Inr (lit ''blob:1''),
      messageId = lit ''2-b'',
      now = 0,
      toLocaleString = toString,
      extractKeyInfo = (\<lambda>t. \<lparr>emails = [], phones = [], urls = [], dates = []\<rparr>)\<rparr>\<close>

definition previousAttachment :: Attachment where
  \<open>previousAttachment =
     \<lparr>attachment_id = lit ''0-z'', attachment_name = lit ''old.pdf'',
      attachment_type = lit ''pdf'', attachment_size = 1024, url = lit ''blob:0'',
      extractedText = Some (lit ''--- Page 1 ---\<newline>An older document''),
      metadata = Some emptyMetadata\<rparr>\<close>

definition elevenMessages :: \<open>GroqMessage list\<close> where
  \<open>elevenMessages =
     map (\<lambda>i. \<lparr>role = (if even i then User else Assistant), content = toString i\<rparr>) [0..<11]\<close>

definition initialState :: ChatState where
  \<open>initialState =
     \<lparr>messages = [], input = [], isLoading = False, attachment = None,
      uploadProgress = 0, processingStatus = [], error = None, revoked = []\<rparr>\<close>

definition blankReply :: \<open>request \<Rightarrow> thrown + completion\<close> where
  \<open>blankReply req = Inr \<lparr>choices = [Choice (Some (CompletionMessage (Some (lit ''  ''))))]\<rparr>\<close>

definition primaryDown :: \<open>request \<Rightarrow> thrown + completion\<close> where
  \<open>primaryDown req =
     (if req_model req = DEFAULT_MODEL then Inl (Error (lit ''Connection error.''))
      else Inr \<lparr>choices = [Choice (Some (CompletionMessage (Some (lit '' ok ''))))]\<rparr>)\<close>

definition longDocument :: jsstring where
  \<open>longDocument = replicate 6001 0x78\<close>

definition textFile :: File where
  \<open>textFile =
     \<lparr>file_name = lit ''notes.txt'', file_type = lit ''text/plain'', file_size = 12,
      getDocument = Inl (Error (lit ''Invalid PDF structure.''))\<rparr>\<close>

definition unreachable :: \<open>request \<Rightarrow> thrown + completion\<close> where
  \<open>unreachable req = Inl (Error (lit ''Connection error.''))\<close>

section \<open>Properties of validatePDFFile\<close>

text \<open>
  C10. For a file whose declared media type is \<open>application/pdf\<close>, validatePDFFile
  reports the file too large (not valid, with the size message) exactly when its size
  is strictly above 15 * 1024 * 1024 bytes, and accepts it otherwise; a file of exactly
  15 * 1024 * 1024 bytes passes.
\<close>

theorem validatePDFFile_limit_exclusive:
  assumes \<open>file_type file = lit ''application/pdf''\<close>
  shows \<open>((validatePDFFile fmt file =
            \<lparr>valid = False,
             validation_error = Some (lit ''File size ('' @ fmt (file_size file) @
               lit '') exceeds the maximum limit of '' @ fmt (15 * 1024 * 1024))\<rparr>)
           = (file_size file > 15 * 1024 * 1024))
         \<and> ((validatePDFFile fmt file = \<lparr>valid = True, validation_error = None\<rparr>)
           = (file_size file \<le> 15 * 1024 * 1024))
         \<and> valid (validatePDFFile fmt (file\<lparr>file_size := 15 * 1024 * 1024\<rparr>))\<close>
  using assms by (simp add: validatePDFFile_def maxSize_def)

theorem validatePDFFile_limit_exclusive_witness:
  \<open>valid (validatePDFFile (\<lambda>n. [])
     \<lparr>file_name = lit ''a.pdf'', file_type = lit ''application/pdf'',
      file_size = 15728640, getDocument = Inl NonError\<rparr>)
   \<and> \<not> valid (validatePDFFile (\<lambda>n. [])
     \<lparr>file_name = lit ''a.pdf'', file_type = lit ''application/pdf'',
      file_size = 15728641, getDocument = Inl NonError\<rparr>)\<close>
  using validatePDFFile_limit_exclusive [of
      \<open>\<lparr>file_name = lit ''a.pdf'', file_type = lit ''application/pdf'',
        file_size = 15728641, getDocument = Inl NonError\<rparr>\<close> \<open>\<lambda>n. []\<close>]
    validatePDFFile_limit_exclusive [of
      \<open>\<lparr>file_name = lit ''a.pdf'', file_type = lit ''application/pdf'',
        file_size = 15728640, getDocument = Inl NonError\<rparr>\<close> \<open>\<lambda>n. []\<close>]
  by simp

section \<open>Lemmas on strings\<close>

lemma lit_append: \<open>lit (a @ b) = lit a @ lit b\<close>
  by (simp add: lit_def)

lemma dropWhile_snoc_keep: \<open>\<not> P x \<Longrightarrow> dropWhile P (ys @ [x]) = dropWhile P ys @ [x]\<close>
  by (induction ys) auto

lemma trim_all_whitespace: \<open>dropWhile isWhiteSpace s = [] \<Longrightarrow> trim s = []\<close>
  unfolding trim_def by (simp only: rev.simps dropWhile.simps)

lemma trim_cases:
  obtains (blank) \<open>trim s = []\<close>
  | (nonblank) x xs where \<open>\<not> isWhiteSpace x\<close>
      \<open>trim s = x # rev (dropWhile isWhiteSpace (rev xs))\<close>
proof (cases \<open>dropWhile isWhiteSpace s\<close>)
  case Nil
  then show ?thesis using blank trim_all_whitespace by blast
next
  case (Cons x xs)
  then have nx: \<open>\<not> isWhiteSpace x\<close>
    using hd_dropWhile [of isWhiteSpace s] by simp
  have \<open>trim s = rev (dropWhile isWhiteSpace (rev (x # xs)))\<close>
    unfolding trim_def Cons ..
  also have \<open>\<dots> = x # rev (dropWhile isWhiteSpace (rev xs))\<close>
    using nx by (simp add: dropWhile_snoc_keep)
  finally show ?thesis using nonblank nx by blast
qed

lemma hd_trim: \<open>trim s \<noteq> [] \<Longrightarrow> \<not> isWhiteSpace (hd (trim s))\<close>
  by (cases s rule: trim_cases) simp_all

lemma last_trim: \<open>trim s \<noteq> [] \<Longrightarrow> \<not> isWhiteSpace (last (trim s))\<close>
proof -
  assume ne: \<open>trim s \<noteq> []\<close>
  define d where \<open>d = rev (dropWhile isWhiteSpace s)\<close>
  have t: \<open>trim s = rev (dropWhile isWhiteSpace d)\<close>
    by (simp add: trim_def d_def)
  with ne have \<open>dropWhile isWhiteSpace d \<noteq> []\<close> by simp
  then have \<open>\<not> isWhiteSpace (hd (dropWhile isWhiteSpace d))\<close>
    by (rule hd_dropWhile)
  then show ?thesis
    using \<open>dropWhile isWhiteSpace d \<noteq> []\<close> by (simp add: t last_rev)
qed

lemma trim_newline_terminated:
  assumes \<open>X \<noteq> []\<close> \<open>\<not> isWhiteSpace (hd X)\<close> \<open>\<not> isWhiteSpace (last X)\<close>
  shows \<open>trim (X @ [0x0A]) = X\<close>
proof -
  have nl: \<open>isWhiteSpace 0x0A\<close> by (simp add: isWhiteSpace_def isLineTerminator_def)
  obtain x xs where X: \<open>X = x # xs\<close> using assms(1) by (cases X) auto
  have nx: \<open>\<not> isWhiteSpace x\<close> using assms(2) by (simp add: X)
  obtain ys y where Y: \<open>X = ys @ [y]\<close> using assms(1) by (cases X rule: rev_cases) auto
  have ny: \<open>\<not> isWhiteSpace y\<close> using assms(3) by (simp add: Y)
  have d1: \<open>dropWhile isWhiteSpace (X @ [0x0A]) = X @ [0x0A]\<close>
    using nx by (simp add: X)
  have \<open>rev (X @ [0x0A]) = 0x0A # y # rev ys\<close> by (simp add: Y)
  then have \<open>dropWhile isWhiteSpace (rev (X @ [0x0A])) = y # rev ys\<close>
    using nl ny by simp
  then show ?thesis unfolding trim_def d1 by (simp add: Y)
qed

lemma join_terminated:
  \<open>xs \<noteq> [] \<Longrightarrow> join sep (map (\<lambda>x. f x @ sep) xs) = join (sep @ sep) (map f xs) @ sep\<close>
proof (induction xs)
  case Nil
  then show ?case by simp
next
  case (Cons x xs)
  then show ?case by (cases xs) auto
qed

lemma join_hd: \<open>xs \<noteq> [] \<Longrightarrow> hd xs \<noteq> [] \<Longrightarrow> hd (join sep xs) = hd (hd xs)\<close>
  by (induction sep xs rule: join.induct) auto

lemma join_nonempty: \<open>xs \<noteq> [] \<Longrightarrow> last xs \<noteq> [] \<Longrightarrow> join sep xs \<noteq> []\<close>
  by (induction sep xs rule: join.induct) auto

lemma join_last: \<open>xs \<noteq> [] \<Longrightarrow> last xs \<noteq> [] \<Longrightarrow> last (join sep xs) = last (last xs)\<close>
proof (induction sep xs rule: join.induct)
  case (3 sep x y ys)
  then have \<open>join sep (y # ys) \<noteq> []\<close>
    using join_nonempty [of \<open>y # ys\<close> sep] by simp
  with 3 show ?case by simp
qed simp_all

lemma join_length: \<open>xs \<noteq> [] \<Longrightarrow> length (hd xs) \<le> length (join sep xs)\<close>
  by (induction sep xs rule: join.induct) auto

lemma toString_nonempty: \<open>toString n \<noteq> []\<close>
  by (subst toString.simps) simp

lemma sliceIndex_last: \<open>0 < k \<Longrightarrow> sliceIndex len (- int k) = len - k\<close>
  by (auto simp: sliceIndex_def)

lemma slice_from_last: \<open>0 < k \<Longrightarrow> slice_from (- int k) xs = drop (length xs - k) xs\<close>
  by (simp add: slice_from_def sliceIndex_last)

lemma slice_prefix: \<open>slice 0 (int k) xs = take k xs\<close>
  by (simp add: slice_def sliceIndex_def Let_def min_def)

section \<open>Properties of getPDFStats\<close>

lemma tokenStarts_dropWhile:
  \<open>tokenStarts True (dropWhile isWhiteSpace cs) = tokenStarts True cs\<close>
  by (induction cs) auto

lemma splitWhitespaceFrom_count:
  \<open>length (filter (\<lambda>w. w \<noteq> []) (splitWhitespaceFrom cur s)) =
     (if cur \<noteq> [] then 1 + tokenStarts False s else tokenStarts True s)\<close>
  by (induction cur s rule: splitWhitespaceFrom.induct)
     (auto simp: tokenStarts_dropWhile)

lemma tokenStarts_card:
  \<open>tokenStarts b s =
     card {i. i < length s \<and> \<not> isWhiteSpace (s ! i) \<and>
              (if i = 0 then b else isWhiteSpace (s ! (i - 1)))}\<close>
proof (induction s arbitrary: b)
  case Nil
  then show ?case by simp
next
  case (Cons c cs)
  let ?T = \<open>{i. i < length cs \<and> \<not> isWhiteSpace (cs ! i) \<and>
              (if i = 0 then isWhiteSpace c else isWhiteSpace (cs ! (i - 1)))}\<close>
  let ?S = \<open>{i. i < length (c # cs) \<and> \<not> isWhiteSpace ((c # cs) ! i) \<and>
              (if i = 0 then b else isWhiteSpace ((c # cs) ! (i - 1)))}\<close>
  have fin: \<open>finite ?T\<close> by simp
  have split: \<open>?S = (if \<not> isWhiteSpace c \<and> b then {0} else {}) \<union> Suc ` ?T\<close>
  proof (rule set_eqI)
    fix i
    show \<open>i \<in> ?S \<longleftrightarrow> i \<in> (if \<not> isWhiteSpace c \<and> b then {0} else {}) \<union> Suc ` ?T\<close>
    proof (cases i)
      case 0
      then show ?thesis by auto
    next
      case (Suc j)
      then show ?thesis by (cases j) auto
    qed
  qed
  have disj: \<open>(if \<not> isWhiteSpace c \<and> b then {0} else {}) \<inter> Suc ` ?T = {}\<close>
    by auto
  have \<open>card ?S = card (if \<not> isWhiteSpace c \<and> b then {0::nat} else {}) + card (Suc ` ?T)\<close>
    unfolding split using fin disj by (intro card_Un_disjoint) auto
  also have \<open>card (Suc ` ?T) = card ?T\<close>
    by (rule card_image) simp
  also have \<open>card ?T = tokenStarts (isWhiteSpace c) cs\<close>
    using Cons.IH [of \<open>isWhiteSpace c\<close>] by simp
  finally show ?case by simp
qed

lemma ceiling_200:
  \<open>\<lceil>(of_nat n :: rat) / 200\<rceil> = \<lceil>(of_nat n :: real) / 200\<rceil>\<close>
proof -
  have \<open>\<lceil>(of_nat n :: rat) / 200\<rceil> = \<lceil>(of_int (int n) :: rat) / of_int 200\<rceil>\<close> by simp
  also have \<open>\<dots> = - ((- int n) div 200)\<close>
    by (simp only: ceiling_divide_eq_div)
  also have \<open>\<dots> = \<lceil>(of_int (int n) :: real) / of_int 200\<rceil>\<close>
    by (simp only: ceiling_divide_eq_div)
  finally show ?thesis by simp
qed

text \<open>
  C8. For every attachment, the word count of getPDFStats is the number of
  whitespace-delimited non-empty tokens of its text (the number of positions where a
  code unit that is not whitespace starts the text or follows whitespace), the reading
  time is the ceiling of the word count divided by 200, and the word count of the empty
  text (or of a missing text) is 0.
\<close>

theorem getPDFStats_word_count:
  \<open>wordCount (getPDFStats a) =
     card {i. i < length (case extractedText a of Some t \<Rightarrow> t | None \<Rightarrow> []) \<and>
              \<not> isWhiteSpace ((case extractedText a of Some t \<Rightarrow> t | None \<Rightarrow> []) ! i) \<and>
              (i = 0 \<or> isWhiteSpace ((case extractedText a of Some t \<Rightarrow> t | None \<Rightarrow> []) ! (i - 1)))}
   \<and> int (readingTime (getPDFStats a)) = \<lceil>real (wordCount (getPDFStats a)) / 200\<rceil>
   \<and> wordCount (getPDFStats (a\<lparr>extractedText := Some []\<rparr>)) = 0
   \<and> wordCount (getPDFStats (a\<lparr>extractedText := None\<rparr>)) = 0\<close>
proof -
  define t where \<open>t = (case extractedText a of Some t \<Rightarrow> t | None \<Rightarrow> [])\<close>
  have same: \<open>(if i = 0 then True else isWhiteSpace (t ! (i - 1))) =
              (i = 0 \<or> isWhiteSpace (t ! (i - 1)))\<close> for i
    by simp
  have wc: \<open>wordCount (getPDFStats a) = tokenStarts True t\<close>
    by (simp add: getPDFStats_def Let_def splitWhitespace_def splitWhitespaceFrom_count t_def)
  have \<open>tokenStarts True t =
        card {i. i < length t \<and> \<not> isWhiteSpace (t ! i) \<and> (i = 0 \<or> isWhiteSpace (t ! (i - 1)))}\<close>
    unfolding tokenStarts_card [of True t] same ..
  with wc have c1: \<open>wordCount (getPDFStats a) =
        card {i. i < length t \<and> \<not> isWhiteSpace (t ! i) \<and> (i = 0 \<or> isWhiteSpace (t ! (i - 1)))}\<close>
    by simp
  have \<open>0 \<le> \<lceil>(of_nat (wordCount (getPDFStats a)) :: rat) / 200\<rceil>\<close>
    by simp
  then have c2: \<open>int (readingTime (getPDFStats a)) = \<lceil>real (wordCount (getPDFStats a)) / 200\<rceil>\<close>
    using ceiling_200 [of \<open>wordCount (getPDFStats a)\<close>]
    by (simp add: getPDFStats_def Let_def)
  have c3: \<open>wordCount (getPDFStats (a\<lparr>extractedText := Some []\<rparr>)) = 0\<close>
    \<open>wordCount (getPDFStats (a\<lparr>extractedText := None\<rparr>)) = 0\<close>
    by (simp_all add: getPDFStats_def Let_def splitWhitespace_def)
  show ?thesis using c1 c2 c3 unfolding t_def by blast
qed

section \<open>Properties of extractTextFromPDF\<close>

lemma processPage_eq:
  \<open>processPage pdf n acc =
     acc @ (if pageBody pdf n \<noteq> [] then [pageBlock pdf n @ lit ''\<newline>''] else [])\<close>
  by (simp add: processPage_def pageBody_def pageBlock_def lit_def Let_def
      split: page_outcome.splits)

lemma extractPages_eq:
  \<open>extractPages pdf k acc =
     acc @ map (\<lambda>n. pageBlock pdf n @ lit ''\<newline>'')
             (filter (\<lambda>n. pageBody pdf n \<noteq> []) [k..<Suc (numPages pdf)])\<close>
proof (induction pdf k acc rule: extractPages.induct)
  case (1 pdf pageNum textPages)
  show ?case
  proof (cases \<open>pageNum \<le> numPages pdf\<close>)
    case True
    then have upt: \<open>[pageNum..<Suc (numPages pdf)] = pageNum # [pageNum + 1..<Suc (numPages pdf)]\<close>
      by (simp add: upt_conv_Cons)
    have \<open>extractPages pdf pageNum textPages =
          extractPages pdf (pageNum + 1) (processPage pdf pageNum textPages)\<close>
      by (subst extractPages.simps) (simp add: True)
    also note 1 [OF True]
    finally show ?thesis
      by (simp add: upt processPage_eq del: upt_Suc)
  next
    case False
    then show ?thesis by (subst extractPages.simps) simp
  qed
qed

lemma pageMarker_length: \<open>14 \<le> length (pageMarker n)\<close>
  using toString_nonempty [of n]
  by (cases \<open>toString n\<close>) (simp_all add: pageMarker_def lit_def)

lemma not_whitespace_hyphen: \<open>\<not> isWhiteSpace 0x2D\<close>
  by (simp add: isWhiteSpace_def isLineTerminator_def)

lemma pageBody_last: \<open>pageBody pdf n \<noteq> [] \<Longrightarrow> \<not> isWhiteSpace (last (pageBody pdf n))\<close>
proof (cases \<open>getPage pdf n\<close>)
  case (PageItems its)
  assume \<open>pageBody pdf n \<noteq> []\<close>
  then show ?thesis
    using PageItems last_trim by (simp add: pageBody_def pageText_def)
next
  case (PageThrows e)
  then show ?thesis
    by (simp add: pageBody_def lit_def isWhiteSpace_def isLineTerminator_def)
qed

lemma pageBlock_facts:
  \<open>pageBlock pdf n \<noteq> []\<close> \<open>hd (pageBlock pdf n) = 0x2D\<close>
  \<open>16 \<le> length (pageBlock pdf n @ lit ''\<newline>'')\<close>
  \<open>pageBody pdf n \<noteq> [] \<Longrightarrow> last (pageBlock pdf n) = last (pageBody pdf n)\<close>
  using pageMarker_length [of n]
  by (auto simp: pageBlock_def pageMarker_def lit_def)

text \<open>
  The text before the length check: empty when no page has a block, else the blocks
  separated by blank lines, with nothing left for \<open>trim\<close> to strip but the last line
  break.
\<close>

lemma fullText_eq:
  \<open>fullText pdf =
     (if pagesWithBlock pdf = [] then []
      else join (lit ''\<newline>\<newline>'') (map (pageBlock pdf) (pagesWithBlock pdf)))\<close>
proof (cases \<open>pagesWithBlock pdf = []\<close>)
  case True
  then show ?thesis
    by (simp add: fullText_def extractPages_eq pagesWithBlock_def trim_def)
next
  case False
  let ?ps = \<open>pagesWithBlock pdf\<close>
  let ?X = \<open>join (lit ''\<newline>\<newline>'') (map (pageBlock pdf) ?ps)\<close>
  have nl2: \<open>lit ''\<newline>\<newline>'' = lit ''\<newline>'' @ lit ''\<newline>''\<close> by (simp add: lit_def)
  have nl: \<open>lit ''\<newline>'' = [0x0A]\<close> by (simp add: lit_def)
  have j: \<open>join (lit ''\<newline>'') (extractPages pdf 1 []) = ?X @ [0x0A]\<close>
    using join_terminated [OF False, of \<open>lit ''\<newline>''\<close> \<open>pageBlock pdf\<close>]
    by (simp add: extractPages_eq pagesWithBlock_def nl2 nl)
  have ne: \<open>map (pageBlock pdf) ?ps \<noteq> []\<close> using False by simp
  have h: \<open>hd (map (pageBlock pdf) ?ps) \<noteq> []\<close> \<open>last (map (pageBlock pdf) ?ps) \<noteq> []\<close>
    using False by (simp_all add: hd_map last_map pageBlock_facts(1))
  have hdX: \<open>hd ?X = 0x2D\<close>
    using join_hd [OF ne h(1)] False by (simp add: hd_map pageBlock_facts(2))
  have \<open>last ?ps \<in> set ?ps\<close> using False by simp
  then have body: \<open>pageBody pdf (last ?ps) \<noteq> []\<close>
    unfolding pagesWithBlock_def set_filter by blast
  have lastX: \<open>last ?X = last (pageBody pdf (last ?ps))\<close>
    using join_last [OF ne h(2)] False body by (simp add: last_map pageBlock_facts(4))
  have Xne: \<open>?X \<noteq> []\<close>
    using join_length [OF ne, of \<open>lit ''\<newline>\<newline>''\<close>] h(1) by auto
  have \<open>trim (?X @ [0x0A]) = ?X\<close>
    using Xne hdX lastX pageBody_last [OF body] not_whitespace_hyphen
    by (intro trim_newline_terminated) simp_all
  then show ?thesis using False unfolding fullText_def j by simp
qed

lemma fullText_length:
  \<open>pagesWithBlock pdf \<noteq> [] \<Longrightarrow> 15 \<le> length (fullText pdf)\<close>
proof -
  assume ne: \<open>pagesWithBlock pdf \<noteq> []\<close>
  then have m: \<open>map (pageBlock pdf) (pagesWithBlock pdf) \<noteq> []\<close> by simp
  have \<open>15 \<le> length (pageBlock pdf (hd (pagesWithBlock pdf)))\<close>
    using pageBlock_facts(3) [of pdf \<open>hd (pagesWithBlock pdf)\<close>] by (simp add: lit_def)
  then show ?thesis
    using join_length [OF m, of \<open>lit ''\<newline>\<newline>''\<close>] ne
    by (simp add: fullText_eq hd_map)
qed

lemma fullText_short_iff: \<open>length (fullText pdf) < 10 \<longleftrightarrow> pagesWithBlock pdf = []\<close>
  using fullText_length [of pdf] by (auto simp: fullText_eq)

lemma classify_empty:
  \<open>classifyExtractionError (Error (lit
     ''PDF appears to be empty or contains only images/scanned content. Text extraction failed.''))
   = Error emptyOrImageOnlyMessage\<close>
  by (simp add: classifyExtractionError_def lit_def)

text \<open>
  C3 (as stated). The claim asks for a marker for every page number from 1 to the page
  count. A page whose text is empty gets no block: in a two-page document whose second
  page has no text, the result has page count 2 and no marker for page 2.
\<close>

theorem extractTextFromPDF_skips_empty_page:
  \<open>extractTextFromPDF sparseFile =
     Inr \<lparr>result_text = lit ''--- Page 1 ---\<newline>Hello world!'',
          result_pageCount = 2,
          result_metadata = emptyMetadata\<rparr>
   \<and> \<not> includes_str (lit ''--- Page 1 ---\<newline>Hello world!'') (pageMarker 2)\<close>
  by code_simp

text \<open>
  C3 (amended). For every file that decodes to a document in which at least one page
  has text or fails to extract, extractTextFromPDF returns the page count of the
  document and a text made of one block per such page, in page order: the marker
  \<open>--- Page N ---\<close>, a line break and the normalised text of page \<open>N\<close> (the
  placeholder when the extraction of the page threw). Pages whose text is empty have no
  block, so page numbers can be missing. The blocks are separated by blank lines and
  nothing is left to trim.
\<close>

theorem extractTextFromPDF_page_blocks:
  assumes \<open>getDocument file = Inr pdf\<close> and \<open>pagesWithBlock pdf \<noteq> []\<close>
  shows \<open>extractTextFromPDF file =
     Inr \<lparr>result_text =
            join (lit ''\<newline>\<newline>'') (map (pageBlock pdf) (pagesWithBlock pdf)),
          result_pageCount = numPages pdf,
          result_metadata = readMetadata file pdf\<rparr>\<close>
proof -
  have \<open>fullText pdf \<noteq> []\<close> \<open>\<not> length (fullText pdf) < 10\<close>
    using fullText_length [OF assms(2)] by auto
  then have \<open>extractTextFromPDF file =
      Inr \<lparr>result_text = fullText pdf, result_pageCount = numPages pdf,
           result_metadata = readMetadata file pdf\<rparr>\<close>
    using assms(1) by (simp add: extractTextFromPDF_def extractionAttempt_def)
  then show ?thesis using assms(2) by (simp add: fullText_eq)
qed

lemma hello_pages: \<open>pagesWithBlock helloDocument = [1, 2, 3]\<close>
  by code_simp

lemma hello_blocks:
  \<open>join (lit ''\<newline>\<newline>'') (map (pageBlock helloDocument) [1, 2, 3]) =
   lit ''--- Page 1 ---\<newline>Hello world\<newline>\<newline>--- Page 2 ---\<newline>Hello world\<newline>\<newline>--- Page 3 ---\<newline>Hello world''\<close>
  by code_simp

theorem extractTextFromPDF_page_blocks_witness:
  \<open>extractTextFromPDF helloFile =
     Inr \<lparr>result_text = lit ''--- Page 1 ---\<newline>Hello world\<newline>\<newline>--- Page 2 ---\<newline>Hello world\<newline>\<newline>--- Page 3 ---\<newline>Hello world'',
          result_pageCount = 3,
          result_metadata = readMetadata helloFile helloDocument\<rparr>\<close>
proof -
  have doc: \<open>getDocument helloFile = Inr helloDocument\<close>
    by (simp add: helloFile_def)
  have pages: \<open>pagesWithBlock helloDocument \<noteq> []\<close>
    by (simp add: hello_pages)
  show ?thesis
    using extractTextFromPDF_page_blocks [OF doc pages]
    unfolding hello_pages hello_blocks by (simp add: helloDocument_def)
qed

text \<open>
  C6. For every file that decodes to a document whose text, after all pages are
  processed, is empty or shorter than 10 code units, extractTextFromPDF fails with the
  message of the class EmptyOrImageOnly.
\<close>

theorem extractTextFromPDF_empty_or_image_only:
  assumes \<open>getDocument file = Inr pdf\<close> and \<open>length (fullText pdf) < 10\<close>
  shows \<open>extractTextFromPDF file = Inl (Error emptyOrImageOnlyMessage)\<close>
  using assms by (simp add: extractTextFromPDF_def extractionAttempt_def classify_empty)

theorem extractTextFromPDF_empty_or_image_only_witness:
  \<open>extractTextFromPDF scannedFile = Inl (Error emptyOrImageOnlyMessage)\<close>
proof -
  have doc: \<open>getDocument scannedFile = Inr scannedDocument\<close>
    by (simp add: scannedFile_def)
  have short: \<open>length (fullText scannedDocument) < 10\<close>
    by code_simp
  show ?thesis
    by (rule extractTextFromPDF_empty_or_image_only [OF doc short])
qed

section \<open>Properties of an upload\<close>

lemma hello_fullText:
  \<open>fullText helloDocument =
   lit ''--- Page 1 ---\<newline>Hello world\<newline>\<newline>--- Page 2 ---\<newline>Hello world\<newline>\<newline>--- Page 3 ---\<newline>Hello world''\<close>
  by (simp only: fullText_eq hello_pages hello_blocks list.distinct if_False)

lemma hello_extraction:
  \<open>extractTextFromPDF helloFile =
     Inr \<lparr>result_text = lit ''--- Page 1 ---\<newline>Hello world\<newline>\<newline>--- Page 2 ---\<newline>Hello world\<newline>\<newline>--- Page 3 ---\<newline>Hello world'',
          result_pageCount = 3,
          result_metadata = readMetadata helloFile helloDocument\<rparr>\<close>
proof -
  have doc: \<open>getDocument helloFile = Inr helloDocument\<close>
    by (simp add: helloFile_def)
  have \<open>length (fullText helloDocument) = 82\<close>
    unfolding hello_fullText by (simp add: lit_def)
  then have \<open>fullText helloDocument \<noteq> []\<close> \<open>\<not> length (fullText helloDocument) < 10\<close>
    by auto
  then have \<open>extractTextFromPDF helloFile =
      Inr \<lparr>result_text = fullText helloDocument, result_pageCount = numPages helloDocument,
           result_metadata = readMetadata helloFile helloDocument\<rparr>\<close>
    using doc by (simp add: extractTextFromPDF_def extractionAttempt_def)
  then show ?thesis unfolding hello_fullText by (simp add: helloDocument_def)
qed

lemma readMetadata_pageCount: \<open>pageCount (readMetadata file pdf) = None\<close>
  by (simp add: readMetadata_def emptyMetadata_def split: sum.splits)

lemma hello_validation:
  \<open>validatePDFFile fmt helloFile = \<lparr>valid = True, validation_error = None\<rparr>\<close>
  by (simp add: validatePDFFile_def helloFile_def maxSize_def)

lemma hello_attachment:
  \<open>processPDFFile exampleEnvironment helloFile =
     Inr \<lparr>attachment_id = lit ''1-a'', attachment_name = lit ''hello.pdf'',
          attachment_type = lit ''pdf'', attachment_size = 2048, url = lit ''blob:1'',
          extractedText = Some (lit ''--- Page 1 ---\<newline>Hello world\<newline>\<newline>--- Page 2 ---\<newline>Hello world\<newline>\<newline>--- Page 3 ---\<newline>Hello world''),
          metadata = Some (readMetadata helloFile helloDocument)\<rparr>\<close>
  by (simp add: processPDFFile_def hello_validation hello_extraction exampleEnvironment_def)
     (simp add: helloFile_def)

text \<open>
  No attachment built by processPDFFile has a page count in its metadata, so the page
  figure of its statistics is 0 whatever the document.
\<close>

lemma processPDFFile_pageCount_unset:
  \<open>processPDFFile env file = Inr a \<Longrightarrow> pages (getPDFStats a) = 0\<close>
  by (auto simp: processPDFFile_def extractTextFromPDF_def extractionAttempt_def
      readMetadata_pageCount getPDFStats_def Let_def
      split: if_splits sum.splits)

lemma toString_0: \<open>toString 0 = lit ''0''\<close>
  by (subst toString.simps) (simp add: digit_def lit_def)

text \<open>
  C2. The upload of the three-page document with \<open>Hello world\<close> on each page: the
  extracted text has the three page markers and the phrase three times, as the claim
  says, but the page figure of the statistics is 0 and the analysis message appended to
  the conversation reports \<open>**Pages**: 0\<close>, not 3.
\<close>

theorem hello_world_upload_reports_no_pages:
  \<open>(case processPDFFile exampleEnvironment helloFile of
      Inl e \<Rightarrow> False
    | Inr a \<Rightarrow>
        extractedText a = Some (lit ''--- Page 1 ---\<newline>Hello world\<newline>\<newline>--- Page 2 ---\<newline>Hello world\<newline>\<newline>--- Page 3 ---\<newline>Hello world'')
        \<and> pages (getPDFStats a) = 0)
   \<and> startsWith
        (message_text (last (messages (handleFileUpload exampleEnvironment helloFile initialState))))
        (lit ''# PDF Analysis Complete\<newline>\<newline>**Document**: hello.pdf\<newline>**Pages**: 0\<newline>**Word Count**: '')\<close>
proof -
  let ?a = \<open>\<lparr>attachment_id = lit ''1-a'', attachment_name = lit ''hello.pdf'',
          attachment_type = lit ''pdf'', attachment_size = 2048, url = lit ''blob:1'',
          extractedText = Some (lit ''--- Page 1 ---\<newline>Hello world\<newline>\<newline>--- Page 2 ---\<newline>Hello world\<newline>\<newline>--- Page 3 ---\<newline>Hello world''),
          metadata = Some (readMetadata helloFile helloDocument)\<rparr>\<close>
  have p: \<open>pages (getPDFStats ?a) = 0\<close>
    by (rule processPDFFile_pageCount_unset [OF hello_attachment])
  have m: \<open>message_text (last (messages (handleFileUpload exampleEnvironment helloFile initialState)))
      = analysisContent exampleEnvironment ?a\<close>
    by (simp add: handleFileUpload_def hello_attachment Let_def)
  have \<open>startsWith (analysisContent exampleEnvironment ?a)
      (lit ''# PDF Analysis Complete\<newline>\<newline>**Document**: hello.pdf\<newline>**Pages**: 0\<newline>**Word Count**: '')\<close>
    by (simp add: analysisContent_def Let_def p toString_0) (simp add: lit_def)
  with m p show ?thesis by (simp add: hello_attachment)
qed

lemma handleFileUpload_thrown:
  \<open>processPDFFile env file = Inl e \<Longrightarrow>
   handleFileUpload env file st =
     st\<lparr>isLoading := False, uploadProgress := 0, processingStatus := [],
        error := Some (case e of
                         Error m \<Rightarrow> m
                       | NonError \<Rightarrow> lit ''Failed to process PDF document'')\<rparr>\<close>
  by (simp add: handleFileUpload_def Let_def errorMessage_def)

lemma processPDFFile_failure:
  assumes \<open>\<not> valid (validatePDFFile (formatFileSize env) file) \<or>
           isl (extractTextFromPDF file) \<or> isl (createObjectURL env)\<close>
  shows \<open>processPDFFile env file =
     Inl (if \<not> valid (validatePDFFile (formatFileSize env) file)
          then Error (case validation_error (validatePDFFile (formatFileSize env) file) of
                        Some m \<Rightarrow> m | None \<Rightarrow> [])
          else case extractTextFromPDF file of
                 Inl x \<Rightarrow> x
               | Inr r \<Rightarrow> projl (createObjectURL env))\<close>
  using assms
  by (auto simp: processPDFFile_def Let_def isl_def split: sum.splits)

lemma processPDFFile_wrong_type:
  \<open>file_type file \<noteq> lit ''application/pdf'' \<Longrightarrow>
   processPDFFile env file = Inl (Error (lit ''Please select a PDF file''))\<close>
  by (simp add: processPDFFile_def validatePDFFile_def Let_def)

lemma processPDFFile_too_large:
  \<open>file_type file = lit ''application/pdf'' \<Longrightarrow> file_size file > 15 * 1024 * 1024 \<Longrightarrow>
   processPDFFile env file =
     Inl (Error (lit ''File size ('' @ formatFileSize env (file_size file) @
       lit '') exceeds the maximum limit of '' @ formatFileSize env (15 * 1024 * 1024)))\<close>
  by (simp add: processPDFFile_def validatePDFFile_def maxSize_def Let_def)

lemma processPDFFile_extraction_thrown:
  \<open>valid (validatePDFFile (formatFileSize env) file) \<Longrightarrow> extractionAttempt file = Inl x \<Longrightarrow>
   processPDFFile env file =
     Inl (Error (case x of
        Error m \<Rightarrow>
          if includes_str m (lit ''Invalid PDF'') then invalidDocumentMessage
          else if includes_str m (lit ''password'') then passwordProtectedMessage
          else if includes_str m (lit ''empty'') then emptyOrImageOnlyMessage
          else lit ''Failed to extract text from PDF: '' @ m
      | NonError \<Rightarrow>
          lit ''An unexpected error occurred while processing the PDF. Please try again.''))\<close>
  by (simp add: processPDFFile_def extractTextFromPDF_def classifyExtractionError_def Let_def
      split: thrown.splits)

lemma processPDFFile_url_thrown:
  \<open>valid (validatePDFFile (formatFileSize env) file) \<Longrightarrow> extractTextFromPDF file = Inr r \<Longrightarrow>
   createObjectURL env = Inl x \<Longrightarrow> processPDFFile env file = Inl x\<close>
  by (simp add: processPDFFile_def Let_def)

text \<open>
  C7. When an upload fails at any step (the validation rejects the file, the
  extraction throws, or the blob URL cannot be made), processPDFFile throws the error
  of that step, and handleFileUpload ends in the state it started from with only the
  error message set (and the loading indicators reset): the stored attachment is the
  same, no URL has been revoked and no message has been appended. The message is the
  message of the error thrown, or \<open>Failed to process PDF document\<close> when the value
  thrown is not an Error: \<open>Please select a PDF file\<close> for a file of another type, the
  size message for an oversized file, the message the extraction gave its failure
  (invalid document, password-protected, images only, or the wrapped unknown failure),
  and what \<open>URL.createObjectURL\<close> threw.
\<close>

theorem handleFileUpload_failure:
  assumes \<open>\<not> valid (validatePDFFile (formatFileSize env) file) \<or>
           isl (extractTextFromPDF file) \<or> isl (createObjectURL env)\<close>
  shows \<open>\<exists>e. processPDFFile env file = Inl e
     \<and> e = (if \<not> valid (validatePDFFile (formatFileSize env) file)
            then Error (case validation_error (validatePDFFile (formatFileSize env) file) of
                          Some m \<Rightarrow> m | None \<Rightarrow> [])
            else case extractTextFromPDF file of
                   Inl x \<Rightarrow> x
                 | Inr r \<Rightarrow> projl (createObjectURL env))
     \<and> handleFileUpload env file st =
         st\<lparr>isLoading := False, uploadProgress := 0, processingStatus := [],
            error := Some (case e of
                             Error m \<Rightarrow> m
                           | NonError \<Rightarrow> lit ''Failed to process PDF document'')\<rparr>
     \<and> attachment (handleFileUpload env file st) = attachment st
     \<and> revoked (handleFileUpload env file st) = revoked st
     \<and> messages (handleFileUpload env file st) = messages st
     \<and> (file_type file \<noteq> lit ''application/pdf'' \<longrightarrow>
          error (handleFileUpload env file st) = Some (lit ''Please select a PDF file''))
     \<and> (file_type file = lit ''application/pdf'' \<and> file_size file > 15 * 1024 * 1024 \<longrightarrow>
          error (handleFileUpload env file st) =
            Some (lit ''File size ('' @ formatFileSize env (file_size file) @
              lit '') exceeds the maximum limit of '' @ formatFileSize env (15 * 1024 * 1024)))
     \<and> (valid (validatePDFFile (formatFileSize env) file) \<longrightarrow>
          (\<forall>x. extractionAttempt file = Inl x \<longrightarrow>
             error (handleFileUpload env file st) =
               Some (case x of
                  Error m \<Rightarrow>
                    if includes_str m (lit ''Invalid PDF'') then invalidDocumentMessage
                    else if includes_str m (lit ''password'') then passwordProtectedMessage
                    else if includes_str m (lit ''empty'') then emptyOrImageOnlyMessage
                    else lit ''Failed to extract text from PDF: '' @ m
                | NonError \<Rightarrow>
                    lit ''An unexpected error occurred while processing the PDF. Please try again.'')))
     \<and> (valid (validatePDFFile (formatFileSize env) file) \<longrightarrow>
          (\<forall>r x. extractTextFromPDF file = Inr r \<longrightarrow> createObjectURL env = Inl x \<longrightarrow>
             error (handleFileUpload env file st) =
               Some (case x of
                       Error m \<Rightarrow> m
                     | NonError \<Rightarrow> lit ''Failed to process PDF document'')))\<close>
proof -
  note thrown = processPDFFile_failure [OF assms]
  note final = handleFileUpload_thrown [where st = st, OF thrown]
  have wrong_type: \<open>error (handleFileUpload env file st) = Some (lit ''Please select a PDF file'')\<close>
    if \<open>file_type file \<noteq> lit ''application/pdf''\<close>
    using handleFileUpload_thrown [where st = st, OF processPDFFile_wrong_type [OF that]] by simp
  have too_large: \<open>error (handleFileUpload env file st) =
      Some (lit ''File size ('' @ formatFileSize env (file_size file) @
        lit '') exceeds the maximum limit of '' @ formatFileSize env (15 * 1024 * 1024))\<close>
    if \<open>file_type file = lit ''application/pdf''\<close> \<open>file_size file > 15 * 1024 * 1024\<close>
    using handleFileUpload_thrown [where st = st, OF processPDFFile_too_large [OF that]] by simp
  have extraction: \<open>error (handleFileUpload env file st) =
      Some (case x of
         Error m \<Rightarrow>
           if includes_str m (lit ''Invalid PDF'') then invalidDocumentMessage
           else if includes_str m (lit ''password'') then passwordProtectedMessage
           else if includes_str m (lit ''empty'') then emptyOrImageOnlyMessage
           else lit ''Failed to extract text from PDF: '' @ m
       | NonError \<Rightarrow>
           lit ''An unexpected error occurred while processing the PDF. Please try again.'')\<close>
    if \<open>valid (validatePDFFile (formatFileSize env) file)\<close> \<open>extractionAttempt file = Inl x\<close>
    for x
    using handleFileUpload_thrown [where st = st, OF processPDFFile_extraction_thrown [OF that]] by simp
  have blob: \<open>error (handleFileUpload env file st) =
      Some (case x of Error m \<Rightarrow> m | NonError \<Rightarrow> lit ''Failed to process PDF document'')\<close>
    if \<open>valid (validatePDFFile (formatFileSize env) file)\<close> \<open>extractTextFromPDF file = Inr r\<close>
      \<open>createObjectURL env = Inl x\<close>
    for r x
    using handleFileUpload_thrown [where st = st, OF processPDFFile_url_thrown [OF that]] by simp
  have kept: \<open>attachment (handleFileUpload env file st) = attachment st\<close>
    \<open>revoked (handleFileUpload env file st) = revoked st\<close>
    \<open>messages (handleFileUpload env file st) = messages st\<close>
    by (simp_all add: final)
  show ?thesis
    using thrown final kept wrong_type too_large extraction blob by blast
qed

lemma scanned_extraction:
  \<open>extractTextFromPDF scannedFile = Inl (Error emptyOrImageOnlyMessage)\<close>
proof -
  have \<open>pagesWithBlock scannedDocument = []\<close> by code_simp
  then have \<open>fullText scannedDocument = []\<close> by (simp add: fullText_eq)
  then show ?thesis
    by (simp add: extractTextFromPDF_def extractionAttempt_def scannedFile_def classify_empty)
qed

theorem handleFileUpload_failure_witness:
  \<open>handleFileUpload exampleEnvironment scannedFile
       (initialState\<lparr>attachment := Some previousAttachment\<rparr>) =
     initialState\<lparr>attachment := Some previousAttachment,
                  error := Some emptyOrImageOnlyMessage\<rparr>
   \<and> handleFileUpload exampleEnvironment textFile
       (initialState\<lparr>attachment := Some previousAttachment\<rparr>) =
     initialState\<lparr>attachment := Some previousAttachment,
                  error := Some (lit ''Please select a PDF file'')\<rparr>
   \<and> handleFileUpload (exampleEnvironment\<lparr>createObjectURL := Inl NonError\<rparr>) helloFile
       (initialState\<lparr>attachment := Some previousAttachment\<rparr>) =
     initialState\<lparr>attachment := Some previousAttachment,
                  error := Some (lit ''Failed to process PDF document'')\<rparr>\<close>
proof -
  let ?st = \<open>initialState\<lparr>attachment := Some previousAttachment\<rparr>\<close>
  have scanned: \<open>\<not> valid (validatePDFFile (formatFileSize exampleEnvironment) scannedFile) \<or>
      isl (extractTextFromPDF scannedFile) \<or> isl (createObjectURL exampleEnvironment)\<close>
    by (simp add: scanned_extraction)
  have scanned_valid: \<open>valid (validatePDFFile (formatFileSize exampleEnvironment) scannedFile)\<close>
    by (simp add: validatePDFFile_def scannedFile_def maxSize_def)
  from handleFileUpload_failure [where st = ?st, OF scanned] scanned_valid
  have first: \<open>handleFileUpload exampleEnvironment scannedFile ?st =
      initialState\<lparr>attachment := Some previousAttachment, error := Some emptyOrImageOnlyMessage\<rparr>\<close>
    by (auto simp: scanned_extraction initialState_def)
  have plain_type: \<open>file_type textFile \<noteq> lit ''application/pdf''\<close>
    by (simp add: textFile_def lit_def)
  then have plain: \<open>\<not> valid (validatePDFFile (formatFileSize exampleEnvironment) textFile) \<or>
      isl (extractTextFromPDF textFile) \<or> isl (createObjectURL exampleEnvironment)\<close>
    by (simp add: validatePDFFile_def)
  from handleFileUpload_failure [where st = ?st, OF plain] plain_type
  have second: \<open>handleFileUpload exampleEnvironment textFile ?st =
      initialState\<lparr>attachment := Some previousAttachment,
                   error := Some (lit ''Please select a PDF file'')\<rparr>\<close>
    by (auto simp: validatePDFFile_def initialState_def)
  let ?env = \<open>exampleEnvironment\<lparr>createObjectURL := Inl NonError\<rparr>\<close>
  have blob: \<open>\<not> valid (validatePDFFile (formatFileSize ?env) helloFile) \<or>
      isl (extractTextFromPDF helloFile) \<or> isl (createObjectURL ?env)\<close>
    by simp
  from handleFileUpload_failure [where st = ?st, OF blob]
  have third: \<open>handleFileUpload ?env helloFile ?st =
      initialState\<lparr>attachment := Some previousAttachment,
                   error := Some (lit ''Failed to process PDF document'')\<rparr>\<close>
    by (auto simp: hello_validation hello_extraction initialState_def)
  show ?thesis using first second third by simp
qed

section \<open>Properties of chatWithContext\<close>

lemma attempt_reply:
  \<open>attempt create req msg =
     (case reply (create req) of
        Some r \<Rightarrow> Inr (trim r)
      | None \<Rightarrow> (case create req of Inl e \<Rightarrow> Inl e | Inr c \<Rightarrow> Inl (Error msg)))\<close>
  by (simp add: attempt_def reply_def split: sum.splits option.splits)

lemma slice_from_numeral:
  \<open>slice_from (- numeral k) xs = drop (length xs - numeral k) xs\<close>
  using slice_from_last [of \<open>numeral k\<close> xs] by simp

lemma slice_prefix_numeral: \<open>slice 0 (numeral k) xs = take (numeral k) xs\<close>
  using slice_prefix [of \<open>numeral k\<close> xs] by simp

lemma fallbackRequest_messages:
  \<open>req_messages (fallbackRequest q h d) =
     \<lparr>role = System, content = aiPrompt\<rparr> # drop (length h - 8) h @
     [\<lparr>role = User, content = userTurn 6000 q d\<rparr>]\<close>
  by (simp add: fallbackRequest_def userTurn_def slice_from_numeral slice_prefix_numeral
      split: option.splits)

lemma primaryRequest_messages:
  \<open>req_messages (primaryRequest q h d) =
     \<lparr>role = System, content = aiPrompt\<rparr> # drop (length h - 10) h @
     [\<lparr>role = User, content = userTurn 8000 q d\<rparr>]\<close>
  by (simp add: primaryRequest_def userTurn_def Let_def slice_from_numeral
      slice_prefix_numeral split: option.splits)

lemma models_differ: \<open>FALLBACK_MODEL \<noteq> DEFAULT_MODEL\<close>
  by (simp add: FALLBACK_MODEL_def DEFAULT_MODEL_def lit_def)

lemma fallbackRequest_eq:
  \<open>fallbackRequest q h d =
     \<lparr>req_model = FALLBACK_MODEL,
      req_messages =
        \<lparr>role = System, content = aiPrompt\<rparr> # drop (length h - 8) h @
        [\<lparr>role = User,
          content = (case d of
                       None \<Rightarrow> q
                     | Some t \<Rightarrow>
                         if t = [] then q
                         else lit ''Document Context:\<newline>'' @ take 6000 t @
                              lit ''\<newline>\<newline>User Question: '' @ q)\<rparr>],
      temperature = 6 / 10, max_tokens = 1500, top_p = 9 / 10,
      frequency_penalty = None, presence_penalty = None\<rparr>\<close>
  by (simp add: fallbackRequest_def slice_from_numeral slice_prefix_numeral
      split: option.splits)

lemma chatWithContext_after_primary_failure:
  \<open>reply (create (primaryRequest q h d)) = None \<Longrightarrow>
   chatWithContext create q h d =
     (case reply (create (fallbackRequest q h d)) of
        Some r \<Rightarrow> Inr (trim r)
      | None \<Rightarrow> Inl (Error serviceUnavailableMessage),
      [primaryRequest q h d, fallbackRequest q h d])\<close>
  by (auto simp: chatWithContext_def Let_def attempt_reply split: sum.splits option.splits)

lemma primaryRequest_model: \<open>req_model (primaryRequest q h d) = DEFAULT_MODEL\<close>
  by (simp add: primaryRequest_def Let_def)

text \<open>
  C1. When the primary call throws or answers without content (no first choice, no
  message, no content, or the empty string), chatWithContext sends exactly two
  requests: the primary one and then, once, the request to the fallback model, whose
  messages are the system instructions, the last 8 entries of the history at most, and
  the user turn with at most 6000 code units of the document. What the caller gets is
  decided by the answer to that fallback request: its content, trimmed, when it has
  one; and when the fallback call also throws or answers without content, the
  ServiceUnavailable error and nothing of what the collaborator threw.
\<close>

theorem chatWithContext_fallback:
  assumes \<open>reply (create (primaryRequest q h d)) = None\<close>
  shows \<open>snd (chatWithContext create q h d) = [primaryRequest q h d, fallbackRequest q h d]
     \<and> req_model (primaryRequest q h d) = DEFAULT_MODEL
     \<and> req_model (fallbackRequest q h d) = FALLBACK_MODEL
     \<and> FALLBACK_MODEL \<noteq> DEFAULT_MODEL
     \<and> req_messages (fallbackRequest q h d) =
         \<lparr>role = System, content = aiPrompt\<rparr> # drop (length h - 8) h @
         [\<lparr>role = User,
           content = (case d of
                        None \<Rightarrow> q
                      | Some t \<Rightarrow>
                          if t = [] then q
                          else lit ''Document Context:\<newline>'' @ take 6000 t @
                               lit ''\<newline>\<newline>User Question: '' @ q)\<rparr>]
     \<and> length (drop (length h - 8) h) \<le> 8
     \<and> (reply (create (fallbackRequest q h d)) = None \<longrightarrow>
          fst (chatWithContext create q h d) = Inl (Error serviceUnavailableMessage))
     \<and> fallbackRequest q h d =
         \<lparr>req_model = FALLBACK_MODEL,
          req_messages =
            \<lparr>role = System, content = aiPrompt\<rparr> # drop (length h - 8) h @
            [\<lparr>role = User,
              content = (case d of
                           None \<Rightarrow> q
                         | Some t \<Rightarrow>
                             if t = [] then q
                             else lit ''Document Context:\<newline>'' @ take 6000 t @
                                  lit ''\<newline>\<newline>User Question: '' @ q)\<rparr>],
          temperature = 6 / 10, max_tokens = 1500, top_p = 9 / 10,
          frequency_penalty = None, presence_penalty = None\<rparr>
     \<and> fst (chatWithContext create q h d) =
         (case reply (create (fallbackRequest q h d)) of
            Some r \<Rightarrow> Inr (trim r)
          | None \<Rightarrow> Inl (Error serviceUnavailableMessage))
     \<and> (\<forall>t :: jsstring. length (take 6000 t) \<le> 6000)\<close>
proof -
  note after = chatWithContext_after_primary_failure [of create q h d, OF assms]
  have sent: \<open>snd (chatWithContext create q h d) = [primaryRequest q h d, fallbackRequest q h d]\<close>
    by (simp add: after)
  have result: \<open>fst (chatWithContext create q h d) =
      (case reply (create (fallbackRequest q h d)) of
         Some r \<Rightarrow> Inr (trim r)
       | None \<Rightarrow> Inl (Error serviceUnavailableMessage))\<close>
    by (simp add: after)
  have unavailable: \<open>fst (chatWithContext create q h d) = Inl (Error serviceUnavailableMessage)\<close>
    if \<open>reply (create (fallbackRequest q h d)) = None\<close>
    by (simp add: result that)
  have model: \<open>req_model (fallbackRequest q h d) = FALLBACK_MODEL\<close>
    by (simp add: fallbackRequest_def)
  have msgs: \<open>req_messages (fallbackRequest q h d) =
         \<lparr>role = System, content = aiPrompt\<rparr> # drop (length h - 8) h @
         [\<lparr>role = User,
           content = (case d of
                        None \<Rightarrow> q
                      | Some t \<Rightarrow>
                          if t = [] then q
                          else lit ''Document Context:\<newline>'' @ take 6000 t @
                               lit ''\<newline>\<newline>User Question: '' @ q)\<rparr>]\<close>
    by (subst fallbackRequest_eq) simp
  have bounds: \<open>length (drop (length h - 8) h) \<le> 8\<close> \<open>\<forall>t :: jsstring. length (take 6000 t) \<le> 6000\<close>
    by simp_all
  show ?thesis
    using sent primaryRequest_model [of q h d] model models_differ msgs bounds unavailable
      fallbackRequest_eq [of q h d] result
    by blast
qed

lemma trim_ok: \<open>trim (lit '' ok '') = lit ''ok''\<close>
  by (simp add: trim_def lit_def isWhiteSpace_def isLineTerminator_def)

theorem chatWithContext_fallback_witness:
  \<open>chatWithContext unreachable (lit ''q'') elevenMessages (Some longDocument) =
     (Inl (Error serviceUnavailableMessage),
      [primaryRequest (lit ''q'') elevenMessages (Some longDocument),
       \<lparr>req_model = FALLBACK_MODEL,
        req_messages =
          \<lparr>role = System, content = aiPrompt\<rparr> # drop 3 elevenMessages @
          [\<lparr>role = User,
            content = lit ''Document Context:\<newline>'' @ replicate 6000 0x78 @
                      lit ''\<newline>\<newline>User Question: q''\<rparr>],
        temperature = 6 / 10, max_tokens = 1500, top_p = 9 / 10,
        frequency_penalty = None, presence_penalty = None\<rparr>])
   \<and> length (drop 3 elevenMessages) = 8
   \<and> fst (chatWithContext primaryDown (lit ''q'') elevenMessages (Some longDocument)) =
       Inr (lit ''ok'')\<close>
proof -
  have len: \<open>length elevenMessages = 11\<close>
    by (simp add: elevenMessages_def)
  have long: \<open>longDocument \<noteq> []\<close> \<open>take 6000 longDocument = replicate 6000 0x78\<close>
    by (simp_all add: longDocument_def)
  have fallback: \<open>fallbackRequest (lit ''q'') elevenMessages (Some longDocument) =
       \<lparr>req_model = FALLBACK_MODEL,
        req_messages =
          \<lparr>role = System, content = aiPrompt\<rparr> # drop 3 elevenMessages @
          [\<lparr>role = User,
            content = lit ''Document Context:\<newline>'' @ replicate 6000 0x78 @
                      lit ''\<newline>\<newline>User Question: q''\<rparr>],
        temperature = 6 / 10, max_tokens = 1500, top_p = 9 / 10,
        frequency_penalty = None, presence_penalty = None\<rparr>\<close>
    by (simp add: fallbackRequest_eq len long lit_def)
  have down: \<open>reply (unreachable (primaryRequest (lit ''q'') elevenMessages (Some longDocument))) = None\<close>
    \<open>reply (unreachable (fallbackRequest (lit ''q'') elevenMessages (Some longDocument))) = None\<close>
    by (simp_all add: reply_def unreachable_def)
  from chatWithContext_fallback
    [of unreachable \<open>lit ''q''\<close> elevenMessages \<open>Some longDocument\<close>, OF down(1)] down(2)
  have first: \<open>chatWithContext unreachable (lit ''q'') elevenMessages (Some longDocument) =
     (Inl (Error serviceUnavailableMessage),
      [primaryRequest (lit ''q'') elevenMessages (Some longDocument),
       fallbackRequest (lit ''q'') elevenMessages (Some longDocument)])\<close>
    by (simp add: prod_eq_iff)
  have primary: \<open>reply (primaryDown (primaryRequest (lit ''q'') elevenMessages (Some longDocument))) = None\<close>
    by (simp add: reply_def primaryDown_def primaryRequest_model)
  have answer: \<open>reply (primaryDown (fallbackRequest (lit ''q'') elevenMessages (Some longDocument))) =
      Some (lit '' ok '')\<close>
    by (simp add: reply_def primaryDown_def fallbackRequest_def models_differ responseContent_def
        lit_def)
  from chatWithContext_fallback
    [of primaryDown \<open>lit ''q''\<close> elevenMessages \<open>Some longDocument\<close>, OF primary]
  have \<open>fst (chatWithContext primaryDown (lit ''q'') elevenMessages (Some longDocument)) =
      (case reply (primaryDown (fallbackRequest (lit ''q'') elevenMessages (Some longDocument))) of
         Some r \<Rightarrow> Inr (trim r)
       | None \<Rightarrow> Inl (Error serviceUnavailableMessage))\<close>
    by blast
  then have second: \<open>fst (chatWithContext primaryDown (lit ''q'') elevenMessages (Some longDocument)) =
      Inr (lit ''ok'')\<close>
    by (simp add: answer trim_ok)
  show ?thesis
    unfolding first fallback using second len by simp
qed

text \<open>
  C4 (as stated). The claim puts a line break between \<open>User Question:\<close> and the
  question; the request has a space there.
\<close>

theorem chatWithContext_separator_is_space:
  \<open>content (last (req_messages (hd (snd
      (chatWithContext unreachable (lit ''q'') [] (Some (lit ''d''))))))) =
     lit ''Document Context:\<newline>d\<newline>\<newline>User Question: q''
   \<and> content (last (req_messages (hd (snd
      (chatWithContext unreachable (lit ''q'') [] (Some (lit ''d''))))))) \<noteq>
     lit ''Document Context:\<newline>d\<newline>\<newline>User Question:\<newline>q''\<close>
  by (simp add: chatWithContext_def Let_def attempt_def unreachable_def primaryRequest_def
      slice_def sliceIndex_def lit_def)

text \<open>
  C4 (amended). The first request chatWithContext sends is the primary request: the
  system instructions, then the last 10 entries of the history at most, in their order,
  then one user turn. The user turn is the question alone when there is no document
  text or the text is empty, and otherwise \<open>Document Context:\<close>, a line break, the
  first 8000 code units of the text, a blank line, \<open>User Question:\<close>, a space and
  the question. With 11 prior messages the request holds the last 10 of them and the
  new user turn.
\<close>

theorem chatWithContext_primary_request:
  \<open>hd (snd (chatWithContext create q h d)) = primaryRequest q h d
   \<and> req_messages (primaryRequest q h d) =
       \<lparr>role = System, content = aiPrompt\<rparr> # drop (length h - 10) h @
       [\<lparr>role = User, content = userTurn 8000 q d\<rparr>]
   \<and> userTurn 8000 q None = q
   \<and> userTurn 8000 q (Some []) = q
   \<and> (\<forall>t. t \<noteq> [] \<longrightarrow> userTurn 8000 q (Some t) =
         lit ''Document Context:\<newline>'' @ take 8000 t @ lit ''\<newline>\<newline>User Question: '' @ q)
   \<and> (length h = 11 \<longrightarrow>
        req_messages (primaryRequest q h d) =
          \<lparr>role = System, content = aiPrompt\<rparr> # tl h @
          [\<lparr>role = User, content = userTurn 8000 q d\<rparr>])\<close>
proof -
  have \<open>drop (Suc 0) h = tl h\<close> by (simp add: drop_Suc)
  then show ?thesis
    by (auto simp: chatWithContext_def Let_def primaryRequest_messages userTurn_def
        split: sum.splits)
qed

theorem chatWithContext_primary_request_witness:
  \<open>req_messages (hd (snd (chatWithContext unreachable (lit ''q'') elevenMessages
      (Some (lit ''d''))))) =
     \<lparr>role = System, content = aiPrompt\<rparr> # tl elevenMessages @
     [\<lparr>role = User, content = lit ''Document Context:\<newline>d\<newline>\<newline>User Question: q''\<rparr>]
   \<and> length (tl elevenMessages) = 10\<close>
proof -
  have len: \<open>length elevenMessages = 11\<close>
    by (simp add: elevenMessages_def)
  have doc: \<open>lit ''d'' \<noteq> []\<close>
    by (simp add: lit_def)
  note request = chatWithContext_primary_request
    [of unreachable \<open>lit ''q''\<close> elevenMessages \<open>Some (lit ''d'')\<close>]
  from request have first:
    \<open>hd (snd (chatWithContext unreachable (lit ''q'') elevenMessages (Some (lit ''d'')))) =
     primaryRequest (lit ''q'') elevenMessages (Some (lit ''d''))\<close>
    by blast
  from request len have msgs:
    \<open>req_messages (primaryRequest (lit ''q'') elevenMessages (Some (lit ''d''))) =
     \<lparr>role = System, content = aiPrompt\<rparr> # tl elevenMessages @
     [\<lparr>role = User, content = userTurn 8000 (lit ''q'') (Some (lit ''d''))\<rparr>]\<close>
    by blast
  from request doc have \<open>userTurn 8000 (lit ''q'') (Some (lit ''d'')) =
     lit ''Document Context:\<newline>'' @ take 8000 (lit ''d'') @
     lit ''\<newline>\<newline>User Question: '' @ lit ''q''\<close>
    by blast
  also have \<open>\<dots> = lit ''Document Context:\<newline>d\<newline>\<newline>User Question: q''\<close>
    by (simp add: lit_def)
  finally have turn: \<open>userTurn 8000 (lit ''q'') (Some (lit ''d'')) =
     lit ''Document Context:\<newline>d\<newline>\<newline>User Question: q''\<close> .
  show ?thesis
    unfolding first msgs turn using len by simp
qed

text \<open>
  C5 (as stated). The claim counts a reply of whitespace only as a failure of the
  attempt. The check for a missing reply comes before the trimming: a primary reply of
  two spaces is returned as the empty string, a success, and the fallback is not called.
\<close>

theorem chatWithContext_blank_reply_succeeds:
  \<open>chatWithContext blankReply (lit ''q'') [] None =
     (Inr [], [primaryRequest (lit ''q'') [] None])\<close>
  by (simp add: chatWithContext_def Let_def attempt_def blankReply_def responseContent_def
      trim_def lit_def isWhiteSpace_def)

text \<open>
  C5 (amended). An attempt takes the reply as valid exactly when the content of the
  first choice is there and is not the empty string, before any trimming, and returns
  it trimmed. A call that throws, or a reply without content or with the empty string,
  is a failure of that attempt: of the primary, it leads to the fallback; of the
  fallback, to the ServiceUnavailable error.
\<close>

theorem chatWithContext_reply:
  \<open>fst (chatWithContext create q h d) =
     (case reply (create (primaryRequest q h d)) of
        Some r \<Rightarrow> Inr (trim r)
      | None \<Rightarrow>
          (case reply (create (fallbackRequest q h d)) of
             Some r \<Rightarrow> Inr (trim r)
           | None \<Rightarrow> Inl (Error serviceUnavailableMessage)))
   \<and> reply (Inl e) = None
   \<and> reply (Inr \<lparr>choices = []\<rparr>) = None
   \<and> reply (Inr \<lparr>choices = Choice None # cs\<rparr>) = None
   \<and> reply (Inr \<lparr>choices = Choice (Some (CompletionMessage None)) # cs\<rparr>) = None
   \<and> reply (Inr \<lparr>choices = Choice (Some (CompletionMessage (Some r))) # cs\<rparr>) =
       (if r = [] then None else Some r)\<close>
  by (auto simp: chatWithContext_def Let_def attempt_reply reply_def responseContent_def
      split: sum.splits option.splits)

section \<open>Properties of parseMarkdown\<close>

text \<open>
  C9. A heading produced by the rewrite rules carries a class attribute, so the test for
  \<open><h1>\<close> does not see it: the output for \<open># Title\<close> is the heading block wrapped in
  one more paragraph. The test only sees tags that the input itself spells out: a text
  with a literal \<open><p>\<close>, for which no rule produces a wrapper, is not wrapped.
\<close>

theorem parseMarkdown_wraps_heading:
  \<open>parseMarkdown (lit ''# Title'') =
     lit ''<p class="mb-4"><h1 class="text-2xl font-serif font-bold mt-8 mb-4 text-vintage-title">Title</h1></p>''
   \<and> parseMarkdown (lit ''a <p> b'') = lit ''a <p> b''\<close>
  by code_simp

end
